theory Spec2Isabelle
  imports Main "HOL-Library.Word"
begin

unbundle bit_operations_syntax

section \<open>The EVEX to VEX compression pass of X86EvexToVex.cpp\<close>

text \<open>
  The pass walks over the machine instructions of a function and replaces an EVEX encoded
  AVX-512 instruction by its VEX encoded twin when the instruction has one and uses none
  of the features only EVEX can encode. This theory embeds the functions of the file
  (\<open>AddTableEntry\<close>, \<open>usesExtendedRegister\<close>, \<open>performCustomAdjustments\<close>,
  \<open>CompressEvexToVexImpl\<close>, \<open>runOnMachineFunction\<close>) and proves the properties the
  specification states about them.

  The file includes its tables and the enumerators of \<open>X86::\<close> and \<open>X86II::\<close> from
  generated headers. Their values are not fixed here: every function takes them as the
  parameter \<open>X\<close> below, so that what is proved holds for every choice of values.

  The classes of the instruction representation (\<open>MachineInstr\<close>, \<open>MachineOperand\<close>,
  \<open>MCInstrDesc\<close>, \<open>MachineFunction\<close>) are declared outside the file as well. They are
  modelled by what the specification says of them and what the pass calls on them.

  An \<open>assert\<close> of the source is a branch of the model: where its condition fails the
  function ends in a \<open>fault\<close> (the behaviour of a build with assertions enabled). An
  accessor used on an operand it is not meant for ends in a \<open>fault\<close> too.
\<close>

subsection \<open>Data\<close>

text \<open>\<open>struct X86EvexToVexCompressTableEntry\<close>: two \<open>uint16_t\<close> opcodes.\<close>

record X86EvexToVexCompressTableEntry =
  EvexOpcode :: "16 word"
  VexOpcode :: "16 word"

text \<open>\<open>EvexToVexTableType = DenseMap<unsigned, uint16_t>\<close>.\<close>

type_synonym EvexToVexTableType = "32 word \<rightharpoonup> 16 word"

text \<open>The opcode enumerators of \<open>X86::\<close> that the file names.\<close>

datatype X86_Opcode =
    VALIGNDZ128rri | VALIGNDZ128rmi | VALIGNQZ128rri | VALIGNQZ128rmi
  | VPALIGNRrri | VPALIGNRrmi
  | VSHUFF32X4Z256rmi | VSHUFF32X4Z256rri | VSHUFF64X2Z256rmi | VSHUFF64X2Z256rri
  | VSHUFI32X4Z256rmi | VSHUFI32X4Z256rri | VSHUFI64X2Z256rmi | VSHUFI64X2Z256rri
  | VPERM2F128rr | VPERM2I128rr | VPERM2F128rm | VPERM2I128rm
  | VRNDSCALEPDZ128rri | VRNDSCALEPDZ128rmi | VRNDSCALEPSZ128rri | VRNDSCALEPSZ128rmi
  | VRNDSCALEPDZ256rri | VRNDSCALEPDZ256rmi | VRNDSCALEPSZ256rri | VRNDSCALEPSZ256rmi
  | VRNDSCALESDZr | VRNDSCALESDZm | VRNDSCALESSZr | VRNDSCALESSZm
  | VRNDSCALESDZr_Int | VRNDSCALESDZm_Int | VRNDSCALESSZr_Int | VRNDSCALESSZm_Int

text \<open>The register enumerators of \<open>X86::\<close> that the file names.\<close>

datatype X86_Register = XMM16 | XMM31 | YMM16 | YMM31 | ZMM0 | ZMM31

text \<open>
  What the generated headers define: the value of each enumerator (\<open>X86_opc X n\<close> is
  \<open>X86::n\<close> for an opcode, \<open>X86_reg X r\<close> is \<open>X86::r\<close> for a register), the
  \<open>TSFlags\<close> masks of \<open>X86II::\<close>, the asm-printer flag \<open>X86::AC_EVEX_2_VEX\<close>, and the
  two arrays of \<open>X86GenEVEX2VEXTables.inc\<close>.
\<close>

record X86 =
  X86_opc :: "X86_Opcode \<Rightarrow> 32 word"
  X86_reg :: "X86_Register \<Rightarrow> 32 word"
  EncodingMask :: "64 word"
  EVEX :: "64 word"
  EVEX_K :: "64 word"
  EVEX_B :: "64 word"
  EVEX_L2 :: "64 word"
  VEX_L :: "64 word"
  AC_EVEX_2_VEX :: "8 word"
  X86EvexToVex128CompressTable :: "X86EvexToVexCompressTableEntry list"
  X86EvexToVex256CompressTable :: "X86EvexToVexCompressTableEntry list"

text \<open>
  Modelled from the spec: the declaration of \<open>MCInstrDesc\<close> is not in the file. It is
  the specification's instruction descriptor, the static metadata of an opcode, with
  the two fields the pass reads: the opcode that \<open>MI.getOpcode()\<close> returns (an
  \<open>unsigned\<close>) and the \<open>uint64_t TSFlags\<close>, which hold the encoding class, the two
  width bits and the mask and broadcast flags.
\<close>

record MCInstrDesc =
  Opcode :: "32 word"
  TSFlags :: "64 word"

text \<open>
  Modelled from the spec: the declaration of \<open>MachineOperand\<close> is not in the file. The
  specification's operand is a register reference (\<open>isReg()\<close>, \<open>getReg()\<close> an
  \<open>unsigned\<close>) or an immediate value (\<open>getImm()\<close> an \<open>int64_t\<close>). The third case
  stands for an operand that is neither; the pass skips it as it skips an immediate.
\<close>

datatype MachineOperand =
    MO_Register "32 word"
  | MO_Immediate "64 word"
  | MO_Other nat

text \<open>
  Modelled from the spec: the declaration of \<open>MachineInstr\<close> is not in the file. It is
  the specification's machine instruction: an opcode, held in the descriptor
  (\<open>getDesc()\<close>, \<open>setDesc()\<close>), an ordered sequence of operands, of which the pass
  reads and writes the explicit ones (\<open>explicit_operands()\<close>; their number is
  \<open>getNumExplicitOperands()\<close>) and leaves the implicit ones after them alone, and the
  print annotation, a set of asm-printer flags (\<open>setAsmPrinterFlag()\<close>).
\<close>

record MachineInstr =
  MCID :: MCInstrDesc
  explicit_operands :: "MachineOperand list"
  implicit_operands :: "MachineOperand list"
  AsmPrinterFlags :: "8 word"

text \<open>
  The members of \<open>class EvexToVexInstPass\<close>: the two tables and \<open>TII\<close>, of which the
  pass uses \<open>TII->get(Opcode)\<close> only.
\<close>

record EvexToVexInstPass =
  EvexToVex128Table :: EvexToVexTableType
  EvexToVex256Table :: EvexToVexTableType
  TII :: "32 word \<Rightarrow> MCInstrDesc"

text \<open>
  Modelled from the spec: the declaration of \<open>MachineFunction\<close> is not in the file. It
  is the specification's compiled unit: what the target profile answers
  (\<open>hasAVX512()\<close>, \<open>getInstrInfo()\<close>) and the basic blocks, each a list of
  instructions.
\<close>

record MachineFunction =
  hasAVX512 :: bool
  getInstrInfo :: "32 word \<Rightarrow> MCInstrDesc"
  Blocks :: "MachineInstr list list"

text \<open>
  The ways the source stops other than by returning: the \<open>assert\<close> of
  \<open>usesExtendedRegister\<close>, the two \<open>assert\<close>s on \<open>NewOpc\<close> of
  \<open>performCustomAdjustments\<close>, \<open>getOperand\<close> past the operands, and \<open>getImm\<close> or
  \<open>setImm\<close> on an operand that is not an immediate.
\<close>

datatype fault =
    ZMM_in_EVEX2VEX_tables
  | Unexpected_new_opcode
  | getOperand_out_of_range
  | Wrong_MachineOperand_accessor

subsection \<open>Accessors\<close>

text \<open>
  Modelled from the spec: the accessors of \<open>MachineInstr\<close> and \<open>MachineOperand\<close> are
  not in the file. They are the specification's operand accessors: get and set of an
  immediate value, the count of explicit operands, and the opcode, descriptor and
  annotation of an instruction.
\<close>

definition getOpcode :: "MachineInstr \<Rightarrow> 32 word" where
  "getOpcode MI = Opcode (MCID MI)"

definition getImm :: "MachineOperand \<Rightarrow> fault + 64 word" where
  "getImm MO = (case MO of MO_Immediate v \<Rightarrow> Inr v | _ \<Rightarrow> Inl Wrong_MachineOperand_accessor)"

definition getNumExplicitOperands :: "MachineInstr \<Rightarrow> nat" where
  "getNumExplicitOperands MI = length (explicit_operands MI)"

text \<open>
  \<open>MI.getOperand(MI.getNumExplicitOperands()-1)\<close>: the last explicit operand. With no
  explicit operand the unsigned index wraps around to \<open>UINT_MAX\<close> and \<open>getOperand\<close>
  is out of range.
\<close>

definition getLastExplicitOperand :: "MachineInstr \<Rightarrow> fault + MachineOperand" where
  "getLastExplicitOperand MI =
     (if getNumExplicitOperands MI = 0 then Inl getOperand_out_of_range
      else Inr (explicit_operands MI ! (getNumExplicitOperands MI - 1)))"

text \<open>\<open>Imm.setImm(v)\<close> on that operand, once \<open>getImm\<close> has shown it is an immediate.\<close>

definition setLastExplicitImm :: "MachineInstr \<Rightarrow> 64 word \<Rightarrow> MachineInstr" where
  "setLastExplicitImm MI v =
     MI\<lparr>explicit_operands :=
          (explicit_operands MI)[getNumExplicitOperands MI - 1 := MO_Immediate v]\<rparr>"

text \<open>\<open>MI.setAsmPrinterFlag(Flag)\<close>: \<open>AsmPrinterFlags |= Flag\<close>.\<close>

definition setAsmPrinterFlag :: "MachineInstr \<Rightarrow> 8 word \<Rightarrow> MachineInstr" where
  "setAsmPrinterFlag MI Flag = MI\<lparr>AsmPrinterFlags := AsmPrinterFlags MI OR Flag\<rparr>"

definition setDesc :: "MachineInstr \<Rightarrow> MCInstrDesc \<Rightarrow> MachineInstr" where
  "setDesc MI Desc = MI\<lparr>MCID := Desc\<rparr>"

subsection \<open>The tables\<close>

text \<open>
  \<open>AddTableEntry\<close>: \<open>EvexToVexTable[EvexOp] = VexOp\<close>; the key widens from
  \<open>uint16_t\<close> to \<open>unsigned\<close>.
\<close>

definition AddTableEntry ::
  "EvexToVexTableType \<Rightarrow> 16 word \<Rightarrow> 16 word \<Rightarrow> EvexToVexTableType" where
  "AddTableEntry EvexToVexTable EvexOp VexOp = EvexToVexTable(ucast EvexOp \<mapsto> VexOp)"

text \<open>The two loops of the constructor, each over one array of the generated header.\<close>

fun InitTable ::
  "EvexToVexTableType \<Rightarrow> X86EvexToVexCompressTableEntry list \<Rightarrow> EvexToVexTableType" where
  "InitTable T [] = T"
| "InitTable T (Entry # Entries) =
     InitTable (AddTableEntry T (EvexOpcode Entry) (VexOpcode Entry)) Entries"

definition EvexToVexInstPass_init :: "X86 \<Rightarrow> (32 word \<Rightarrow> MCInstrDesc) \<Rightarrow> EvexToVexInstPass" where
  "EvexToVexInstPass_init X tii =
     \<lparr>EvexToVex128Table = InitTable Map.empty (X86EvexToVex128CompressTable X),
      EvexToVex256Table = InitTable Map.empty (X86EvexToVex256CompressTable X),
      TII = tii\<rparr>"

subsection \<open>usesExtendedRegister\<close>

definition isHiRegIdx :: "X86 \<Rightarrow> 32 word \<Rightarrow> bool" where
  "isHiRegIdx X Reg =
     (if X86_reg X XMM16 \<le> Reg \<and> Reg \<le> X86_reg X XMM31 then True
      else if X86_reg X YMM16 \<le> Reg \<and> Reg \<le> X86_reg X YMM31 then True
      else False)"

definition isZMM :: "X86 \<Rightarrow> 32 word \<Rightarrow> bool" where
  "isZMM X Reg = (X86_reg X ZMM0 \<le> Reg \<and> Reg \<le> X86_reg X ZMM31)"

text \<open>The loop over \<open>MI.explicit_operands()\<close>.\<close>

fun usesExtendedRegister_loop :: "X86 \<Rightarrow> MachineOperand list \<Rightarrow> fault + bool" where
  "usesExtendedRegister_loop X [] = Inr False"
| "usesExtendedRegister_loop X (MO_Register Reg # MOs) =
     (if isZMM X Reg then Inl ZMM_in_EVEX2VEX_tables
      else if isHiRegIdx X Reg then Inr True
      else usesExtendedRegister_loop X MOs)"
| "usesExtendedRegister_loop X (MO # MOs) = usesExtendedRegister_loop X MOs"

definition usesExtendedRegister :: "X86 \<Rightarrow> MachineInstr \<Rightarrow> fault + bool" where
  "usesExtendedRegister X MI = usesExtendedRegister_loop X (explicit_operands MI)"

subsection \<open>performCustomAdjustments\<close>

text \<open>
  The case labels of the \<open>switch\<close>, group by group. The labels of a \<open>switch\<close> are
  distinct, so testing the groups one after the other is what the \<open>switch\<close> does.
\<close>

definition VALIGN_labels :: "X86 \<Rightarrow> 32 word set" where
  "VALIGN_labels X =
     X86_opc X ` {VALIGNDZ128rri, VALIGNDZ128rmi, VALIGNQZ128rri, VALIGNQZ128rmi}"

definition VSHUF_labels :: "X86 \<Rightarrow> 32 word set" where
  "VSHUF_labels X =
     X86_opc X ` {VSHUFF32X4Z256rmi, VSHUFF32X4Z256rri, VSHUFF64X2Z256rmi, VSHUFF64X2Z256rri,
                  VSHUFI32X4Z256rmi, VSHUFI32X4Z256rri, VSHUFI64X2Z256rmi, VSHUFI64X2Z256rri}"

definition VRNDSCALE_labels :: "X86 \<Rightarrow> 32 word set" where
  "VRNDSCALE_labels X =
     X86_opc X ` {VRNDSCALEPDZ128rri, VRNDSCALEPDZ128rmi, VRNDSCALEPSZ128rri, VRNDSCALEPSZ128rmi,
                  VRNDSCALEPDZ256rri, VRNDSCALEPDZ256rmi, VRNDSCALEPSZ256rri, VRNDSCALEPSZ256rmi,
                  VRNDSCALESDZr, VRNDSCALESDZm, VRNDSCALESSZr, VRNDSCALESSZm,
                  VRNDSCALESDZr_Int, VRNDSCALESDZm_Int, VRNDSCALESSZr_Int, VRNDSCALESSZm_Int}"

text \<open>
  The function returns its \<open>bool\<close> and the instruction as it leaves it. The product
  \<open>Imm.getImm() * Scale\<close> is taken in 64 bits.
\<close>

definition performCustomAdjustments ::
  "X86 \<Rightarrow> MachineInstr \<Rightarrow> 32 word \<Rightarrow> fault + (bool \<times> MachineInstr)" where
  "performCustomAdjustments X MI NewOpc =
     (let Opc = getOpcode MI in
      if Opc \<in> VALIGN_labels X then
        (if \<not> (NewOpc = X86_opc X VPALIGNRrri \<or> NewOpc = X86_opc X VPALIGNRrmi)
         then Inl Unexpected_new_opcode
         else
           let Scale = (if Opc = X86_opc X VALIGNQZ128rri \<or> Opc = X86_opc X VALIGNQZ128rmi
                        then 8 else 4 :: 64 word)
           in (case getLastExplicitOperand MI of
                 Inl f \<Rightarrow> Inl f
               | Inr Imm \<Rightarrow>
                   (case getImm Imm of
                      Inl f \<Rightarrow> Inl f
                    | Inr ImmVal \<Rightarrow> Inr (True, setLastExplicitImm MI (ImmVal * Scale)))))
      else if Opc \<in> VSHUF_labels X then
        (if \<not> (NewOpc = X86_opc X VPERM2F128rr \<or> NewOpc = X86_opc X VPERM2I128rr \<or>
                NewOpc = X86_opc X VPERM2F128rm \<or> NewOpc = X86_opc X VPERM2I128rm)
         then Inl Unexpected_new_opcode
         else
           (case getLastExplicitOperand MI of
              Inl f \<Rightarrow> Inl f
            | Inr Imm \<Rightarrow>
                (case getImm Imm of
                   Inl f \<Rightarrow> Inl f
                 | Inr ImmVal \<Rightarrow>
                     Inr (True, setLastExplicitImm MI
                                  (0x20 OR push_bit 3 (ImmVal AND 2) OR (ImmVal AND 1))))))
      else if Opc \<in> VRNDSCALE_labels X then
        (case getLastExplicitOperand MI of
           Inl f \<Rightarrow> Inl f
         | Inr Imm \<Rightarrow>
             (case getImm Imm of
                Inl f \<Rightarrow> Inl f
              | Inr ImmVal \<Rightarrow>
                  if (ImmVal AND 0xf) \<noteq> ImmVal then Inr (False, MI) else Inr (True, MI)))
      else Inr (True, MI))"

subsection \<open>CompressEvexToVexImpl\<close>

text \<open>The search in one table: the new opcode of a hit, as an \<open>unsigned\<close>.\<close>

definition find_NewOpc :: "EvexToVexTableType \<Rightarrow> 32 word \<Rightarrow> 32 word \<Rightarrow> 32 word" where
  "find_NewOpc EvexToVexTable Opc NewOpc =
     (case EvexToVexTable Opc of None \<Rightarrow> NewOpc | Some second \<Rightarrow> ucast second)"

definition CompressEvexToVexImpl ::
  "X86 \<Rightarrow> EvexToVexInstPass \<Rightarrow> MachineInstr \<Rightarrow> fault + (bool \<times> MachineInstr)" where
  "CompressEvexToVexImpl X P MI =
     (let Desc = MCID MI in
      if (TSFlags Desc AND EncodingMask X) \<noteq> EVEX X then Inr (False, MI)
      else if (TSFlags Desc AND (EVEX_K X OR EVEX_B X)) \<noteq> 0 then Inr (False, MI)
      else if (TSFlags Desc AND EVEX_L2 X) \<noteq> 0 \<and> \<not> (TSFlags Desc AND VEX_L X) \<noteq> 0
        then Inr (False, MI)
      else
        let IsEVEX_V128 =
              (\<not> (TSFlags Desc AND EVEX_L2 X) \<noteq> 0 \<and> \<not> (TSFlags Desc AND VEX_L X) \<noteq> 0);
            IsEVEX_V256 =
              (\<not> (TSFlags Desc AND EVEX_L2 X) \<noteq> 0 \<and> (TSFlags Desc AND VEX_L X) \<noteq> 0);
            NewOpc =
              (if IsEVEX_V256 then find_NewOpc (EvexToVex256Table P) (getOpcode MI) 0
               else if IsEVEX_V128 then find_NewOpc (EvexToVex128Table P) (getOpcode MI) 0
               else 0)
        in
          if NewOpc = 0 then Inr (False, MI)
          else
            (case usesExtendedRegister X MI of
               Inl f \<Rightarrow> Inl f
             | Inr True \<Rightarrow> Inr (False, MI)
             | Inr False \<Rightarrow>
                 (case performCustomAdjustments X MI NewOpc of
                    Inl f \<Rightarrow> Inl f
                  | Inr (False, MI') \<Rightarrow> Inr (False, MI')
                  | Inr (True, MI') \<Rightarrow>
                      Inr (True, setAsmPrinterFlag (setDesc MI' (TII P NewOpc))
                                   (AC_EVEX_2_VEX X)))))"

subsection \<open>runOnMachineFunction\<close>

text \<open>The inner loop: \<open>Changed |= CompressEvexToVexImpl(MI)\<close> for every instruction of a block.\<close>

fun traverse_MBB ::
  "X86 \<Rightarrow> EvexToVexInstPass \<Rightarrow> MachineInstr list \<Rightarrow> bool \<Rightarrow> fault + (bool \<times> MachineInstr list)"
  where
  "traverse_MBB X P [] Changed = Inr (Changed, [])"
| "traverse_MBB X P (MI # MIs) Changed =
     (case CompressEvexToVexImpl X P MI of
        Inl f \<Rightarrow> Inl f
      | Inr (c, MI') \<Rightarrow>
          (case traverse_MBB X P MIs (Changed \<or> c) of
             Inl f \<Rightarrow> Inl f
           | Inr (Changed', MIs') \<Rightarrow> Inr (Changed', MI' # MIs')))"

text \<open>The outer loop, over the basic blocks.\<close>

fun traverse_MF ::
  "X86 \<Rightarrow> EvexToVexInstPass \<Rightarrow> MachineInstr list list \<Rightarrow> bool \<Rightarrow>
   fault + (bool \<times> MachineInstr list list)"
  where
  "traverse_MF X P [] Changed = Inr (Changed, [])"
| "traverse_MF X P (MBB # MBBs) Changed =
     (case traverse_MBB X P MBB Changed of
        Inl f \<Rightarrow> Inl f
      | Inr (Changed', MBB') \<Rightarrow>
          (case traverse_MF X P MBBs Changed' of
             Inl f \<Rightarrow> Inl f
           | Inr (Changed'', MBBs') \<Rightarrow> Inr (Changed'', MBB' # MBBs')))"

text \<open>
  \<open>runOnMachineFunction\<close> first stores the subtarget's instruction info in the member
  \<open>TII\<close>; every run does, so what a run leaves there is read by no later run.
\<close>

definition runOnMachineFunction ::
  "X86 \<Rightarrow> EvexToVexInstPass \<Rightarrow> MachineFunction \<Rightarrow> fault + (bool \<times> MachineFunction)" where
  "runOnMachineFunction X P MF =
     (let P' = P\<lparr>TII := getInstrInfo MF\<rparr> in
      if \<not> hasAVX512 MF then Inr (False, MF)
      else
        (case traverse_MF X P' (Blocks MF) False of
           Inl f \<Rightarrow> Inl f
         | Inr (Changed, MBBs) \<Rightarrow> Inr (Changed, MF\<lparr>Blocks := MBBs\<rparr>)))"

subsection \<open>The conditions the properties speak of\<close>

text \<open>The encoding class of the instruction is EVEX.\<close>

definition isEVEX :: "X86 \<Rightarrow> MachineInstr \<Rightarrow> bool" where
  "isEVEX X MI = ((TSFlags (MCID MI) AND EncodingMask X) = EVEX X)"

text \<open>
  A flag of \<open>TSFlags\<close> is set: the mask flag is \<open>TSFlag_set MI (EVEX_K X)\<close>, the
  broadcast flag \<open>TSFlag_set MI (EVEX_B X)\<close>, the two width bits
  \<open>TSFlag_set MI (EVEX_L2 X)\<close> and \<open>TSFlag_set MI (VEX_L X)\<close>.
\<close>

definition TSFlag_set :: "MachineInstr \<Rightarrow> 64 word \<Rightarrow> bool" where
  "TSFlag_set MI F = ((TSFlags (MCID MI) AND F) \<noteq> 0)"

text \<open>An explicit register operand names an XMM or YMM register with an index of 16 to 31.\<close>

definition names_hi_register :: "X86 \<Rightarrow> MachineInstr \<Rightarrow> bool" where
  "names_hi_register X MI =
     (\<exists>MO \<in> set (explicit_operands MI).
        case MO of MO_Register Reg \<Rightarrow> isHiRegIdx X Reg | _ \<Rightarrow> False)"

text \<open>An explicit register operand names a ZMM register.\<close>

definition names_ZMM_register :: "X86 \<Rightarrow> MachineInstr \<Rightarrow> bool" where
  "names_ZMM_register X MI =
     (\<exists>MO \<in> set (explicit_operands MI).
        case MO of MO_Register Reg \<Rightarrow> isZMM X Reg | _ \<Rightarrow> False)"

text \<open>
  The entry of the instruction's opcode in the table partition of its width class: the
  256 partition with \<open>EVEX_L2\<close> clear and \<open>VEX_L\<close> set, the 128 partition with both
  clear, and none with \<open>EVEX_L2\<close> set.
\<close>

definition table_entry :: "X86 \<Rightarrow> EvexToVexInstPass \<Rightarrow> MachineInstr \<Rightarrow> 16 word option" where
  "table_entry X P MI =
     (if TSFlag_set MI (EVEX_L2 X) then None
      else if TSFlag_set MI (VEX_L X) then EvexToVex256Table P (getOpcode MI)
      else EvexToVex128Table P (getOpcode MI))"

text \<open>
  The instruction passes the eligibility checks and the table has a short form for it:
  it is EVEX encoded, has neither mask nor broadcast, and its entry is the opcode
  \<open>NewOpc\<close>, which is not 0. These are the instructions that reach the register check.
\<close>

definition reaches_register_check ::
  "X86 \<Rightarrow> EvexToVexInstPass \<Rightarrow> MachineInstr \<Rightarrow> 32 word \<Rightarrow> bool" where
  "reaches_register_check X P MI NewOpc =
     (isEVEX X MI \<and> \<not> TSFlag_set MI (EVEX_K X) \<and> \<not> TSFlag_set MI (EVEX_B X) \<and>
      (case table_entry X P MI of None \<Rightarrow> False | Some v \<Rightarrow> v \<noteq> 0 \<and> NewOpc = ucast v))"

text \<open>The last explicit operand is the immediate \<open>v\<close>.\<close>

definition last_explicit_is_Imm :: "MachineInstr \<Rightarrow> 64 word \<Rightarrow> bool" where
  "last_explicit_is_Imm MI v =
     (explicit_operands MI \<noteq> [] \<and> last (explicit_operands MI) = MO_Immediate v)"

text \<open>
  The rewrite that \<open>CompressEvexToVexImpl\<close> commits on an instruction whose operands
  are final: the descriptor of \<open>NewOpc\<close> and the flag.
\<close>

definition commit :: "X86 \<Rightarrow> EvexToVexInstPass \<Rightarrow> MachineInstr \<Rightarrow> 32 word \<Rightarrow> MachineInstr" where
  "commit X P MI NewOpc = setAsmPrinterFlag (setDesc MI (TII P NewOpc)) (AC_EVEX_2_VEX X)"

text \<open>
  The \<open>switch\<close> of \<open>performCustomAdjustments\<close> takes the second or the third group of
  labels for the opcode. Where the enumerators have distinct values, these are the
  opcodes of the group (\<open>selects_VSHUF_labels\<close>, \<open>selects_VRNDSCALE_labels\<close> below).
\<close>

definition selects_VSHUF :: "X86 \<Rightarrow> 32 word \<Rightarrow> bool" where
  "selects_VSHUF X Opc = (Opc \<notin> VALIGN_labels X \<and> Opc \<in> VSHUF_labels X)"

definition selects_VRNDSCALE :: "X86 \<Rightarrow> 32 word \<Rightarrow> bool" where
  "selects_VRNDSCALE X Opc =
     (Opc \<notin> VALIGN_labels X \<and> Opc \<notin> VSHUF_labels X \<and> Opc \<in> VRNDSCALE_labels X)"

text \<open>
  No short form in the generated tables is EVEX encoded: the descriptor that \<open>tii\<close>
  gives for the \<open>VexOpcode\<close> of any entry fails the first check of
  \<open>CompressEvexToVexImpl\<close>.
\<close>

definition short_forms_not_EVEX :: "X86 \<Rightarrow> (32 word \<Rightarrow> MCInstrDesc) \<Rightarrow> bool" where
  "short_forms_not_EVEX X tii =
     (\<forall>Entry \<in> set (X86EvexToVex128CompressTable X @ X86EvexToVex256CompressTable X).
        (TSFlags (tii (ucast (VexOpcode Entry))) AND EncodingMask X) \<noteq> EVEX X)"

text \<open>
  The instruction is no ZMM instruction of the tables: if a table has an entry for its
  opcode, none of its explicit register operands names a ZMM register.
\<close>

definition no_ZMM_in_tables :: "X86 \<Rightarrow> EvexToVexInstPass \<Rightarrow> MachineInstr \<Rightarrow> bool" where
  "no_ZMM_in_tables X P MI =
     (EvexToVex128Table P (getOpcode MI) \<noteq> None \<or> EvexToVex256Table P (getOpcode MI) \<noteq> None
        \<longrightarrow> \<not> names_ZMM_register X MI)"

text \<open>
  Among the explicit register operands that name a ZMM register or an XMM or YMM register
  with an index of 16 to 31, the first names a ZMM register: the loop of
  \<open>usesExtendedRegister\<close> comes to a ZMM register before it returns.
\<close>

definition ZMM_or_hi :: "X86 \<Rightarrow> MachineOperand \<Rightarrow> bool" where
  "ZMM_or_hi X MO = (case MO of MO_Register Reg \<Rightarrow> isZMM X Reg \<or> isHiRegIdx X Reg | _ \<Rightarrow> False)"

definition ZMM_register_first :: "X86 \<Rightarrow> MachineInstr \<Rightarrow> bool" where
  "ZMM_register_first X MI =
     (case find (ZMM_or_hi X) (explicit_operands MI) of
        Some (MO_Register Reg) \<Rightarrow> isZMM X Reg
      | _ \<Rightarrow> False)"

text \<open>
  The remapping of a lane-select immediate as the specification writes it:
  \<open>0x20 | ((v & 2) << 3) | (v & 1)\<close>.
\<close>

definition lane_select_remap :: "64 word \<Rightarrow> 64 word" where
  "lane_select_remap v = (0x20 OR push_bit 3 (v AND 2) OR (v AND 1))"

subsection \<open>An instance of the parameters\<close>

text \<open>
  Concrete values for the enumerators, the flags, the tables and the descriptors, on
  which the functions can be evaluated. The numbers are chosen freely (distinct opcodes,
  disjoint register ranges, two bits for the encoding class and one for each flag);
  nothing proved for all \<open>X\<close> depends on them.
\<close>

fun opc_example :: "X86_Opcode \<Rightarrow> 32 word" where
  "opc_example VALIGNDZ128rri = 1001"
| "opc_example VALIGNDZ128rmi = 1002"
| "opc_example VALIGNQZ128rri = 1003"
| "opc_example VALIGNQZ128rmi = 1004"
| "opc_example VPALIGNRrri = 2001"
| "opc_example VPALIGNRrmi = 2002"
| "opc_example VSHUFF32X4Z256rmi = 1011"
| "opc_example VSHUFF32X4Z256rri = 1012"
| "opc_example VSHUFF64X2Z256rmi = 1013"
| "opc_example VSHUFF64X2Z256rri = 1014"
| "opc_example VSHUFI32X4Z256rmi = 1015"
| "opc_example VSHUFI32X4Z256rri = 1016"
| "opc_example VSHUFI64X2Z256rmi = 1017"
| "opc_example VSHUFI64X2Z256rri = 1018"
| "opc_example VPERM2F128rr = 2011"
| "opc_example VPERM2I128rr = 2012"
| "opc_example VPERM2F128rm = 2013"
| "opc_example VPERM2I128rm = 2014"
| "opc_example VRNDSCALEPDZ128rri = 1021"
| "opc_example VRNDSCALEPDZ128rmi = 1022"
| "opc_example VRNDSCALEPSZ128rri = 1023"
| "opc_example VRNDSCALEPSZ128rmi = 1024"
| "opc_example VRNDSCALEPDZ256rri = 1025"
| "opc_example VRNDSCALEPDZ256rmi = 1026"
| "opc_example VRNDSCALEPSZ256rri = 1027"
| "opc_example VRNDSCALEPSZ256rmi = 1028"
| "opc_example VRNDSCALESDZr = 1029"
| "opc_example VRNDSCALESDZm = 1030"
| "opc_example VRNDSCALESSZr = 1031"
| "opc_example VRNDSCALESSZm = 1032"
| "opc_example VRNDSCALESDZr_Int = 1033"
| "opc_example VRNDSCALESDZm_Int = 1034"
| "opc_example VRNDSCALESSZr_Int = 1035"
| "opc_example VRNDSCALESSZm_Int = 1036"

fun reg_example :: "X86_Register \<Rightarrow> 32 word" where
  "reg_example XMM16 = 160"
| "reg_example XMM31 = 175"
| "reg_example YMM16 = 192"
| "reg_example YMM31 = 207"
| "reg_example ZMM0 = 208"
| "reg_example ZMM31 = 239"

text \<open>
  The 128 table pairs \<open>VALIGNQZ128rri\<close> (1003) with \<open>VPALIGNRrri\<close> (2001) and
  \<open>VRNDSCALEPDZ128rri\<close> (1021) with a rounding opcode 2021; the 256 table pairs
  \<open>VSHUFF32X4Z256rri\<close> (1012) with \<open>VPERM2F128rr\<close> (2011) and an opcode 1100 that
  needs no adjustment with 2100.
\<close>

definition X86_example :: X86 where
  "X86_example =
     \<lparr>X86_opc = opc_example, X86_reg = reg_example,
      EncodingMask = 0x30000000, EVEX = 0x30000000,
      EVEX_K = 0x20000000000, EVEX_B = 0x100000000000,
      EVEX_L2 = 0x80000000000, VEX_L = 0x10000000000,
      AC_EVEX_2_VEX = 4,
      X86EvexToVex128CompressTable =
        [\<lparr>EvexOpcode = 1003, VexOpcode = 2001\<rparr>, \<lparr>EvexOpcode = 1021, VexOpcode = 2021\<rparr>],
      X86EvexToVex256CompressTable =
        [\<lparr>EvexOpcode = 1012, VexOpcode = 2011\<rparr>, \<lparr>EvexOpcode = 1100, VexOpcode = 2100\<rparr>]\<rparr>"

text \<open>
  The descriptors: opcodes below 2000 are EVEX encoded, those from 1011 to 1018, from
  1025 to 1028 and 1100 with \<open>VEX_L\<close> set; opcodes from 2000 on are VEX encoded.
\<close>

definition TII_example :: "32 word \<Rightarrow> MCInstrDesc" where
  "TII_example opc =
     \<lparr>Opcode = opc,
      TSFlags =
        (if 2000 \<le> opc then 0x10000000
         else if (1011 \<le> opc \<and> opc \<le> 1018) \<or> (1025 \<le> opc \<and> opc \<le> 1028) \<or> opc = 1100
           then 0x10030000000
         else 0x30000000)\<rparr>"

definition P_example :: EvexToVexInstPass where
  "P_example = EvexToVexInstPass_init X86_example TII_example"

text \<open>An instruction of opcode \<open>opc\<close> as \<open>TII_example\<close> describes it.\<close>

definition MI_example :: "32 word \<Rightarrow> MachineOperand list \<Rightarrow> MachineInstr" where
  "MI_example opc MOs =
     \<lparr>MCID = TII_example opc, explicit_operands = MOs, implicit_operands = [],
      AsmPrinterFlags = 0\<rparr>"

text \<open>An instruction of opcode \<open>opc\<close> with the \<open>TSFlags\<close> given.\<close>

definition MI_flags_example :: "32 word \<Rightarrow> 64 word \<Rightarrow> MachineOperand list \<Rightarrow> MachineInstr" where
  "MI_flags_example opc flags MOs =
     \<lparr>MCID = \<lparr>Opcode = opc, TSFlags = flags\<rparr>, explicit_operands = MOs,
      implicit_operands = [], AsmPrinterFlags = 0\<rparr>"

text \<open>A pass whose 128 table pairs opcode 1003 with the short form 0.\<close>

definition P_zero_example :: EvexToVexInstPass where
  "P_zero_example =
     P_example\<lparr>EvexToVex128Table := AddTableEntry (EvexToVex128Table P_example) 1003 0\<rparr>"

text \<open>
  A pass whose tables hold each of the opcodes 1003 and 1012 twice: in the table of its
  width with the short form of the example, and in the other table with 2100.
\<close>

definition P_both_example :: EvexToVexInstPass where
  "P_both_example =
     P_example\<lparr>EvexToVex128Table := AddTableEntry (EvexToVex128Table P_example) 1012 2100,
               EvexToVex256Table := AddTableEntry (EvexToVex256Table P_example) 1003 2100\<rparr>"

text \<open>
  Instructions with an entry in a table: \<open>VALIGNQZ128rri\<close> with the immediate 3 and
  what the pass makes of it, \<open>VSHUFF32X4Z256rri\<close> and \<open>VRNDSCALEPDZ128rri\<close> with an
  immediate \<open>v\<close>. Registers 144 to 159 stand for XMM0 to XMM15 and 176 to 191 for
  YMM0 to YMM15.
\<close>

definition MI_VALIGNQ_example :: MachineInstr where
  "MI_VALIGNQ_example =
     MI_example 1003 [MO_Register 144, MO_Register 145, MO_Register 146, MO_Immediate 3]"

definition MI_VPALIGNR_example :: MachineInstr where
  "MI_VPALIGNR_example =
     commit X86_example P_example
       (MI_example 1003 [MO_Register 144, MO_Register 145, MO_Register 146, MO_Immediate 24])
       2001"

definition MI_VSHUF_example :: "64 word \<Rightarrow> MachineInstr" where
  "MI_VSHUF_example v =
     MI_example 1012 [MO_Register 176, MO_Register 177, MO_Register 178, MO_Immediate v]"

definition MI_VRNDSCALE_example :: "64 word \<Rightarrow> MachineInstr" where
  "MI_VRNDSCALE_example v = MI_example 1021 [MO_Register 144, MO_Register 145, MO_Immediate v]"

text \<open>
  \<open>VRNDSCALEPDZ128rri\<close> on XMM20 (164), and on XMM20 and ZMM2 (210) in either order.
\<close>

definition MI_hi_example :: MachineInstr where
  "MI_hi_example = MI_example 1021 [MO_Register 144, MO_Register 164, MO_Immediate 7]"

definition MI_ZMM_hi_example :: MachineInstr where
  "MI_ZMM_hi_example = MI_example 1021 [MO_Register 210, MO_Register 164, MO_Immediate 7]"

definition MI_hi_ZMM_example :: MachineInstr where
  "MI_hi_ZMM_example = MI_example 1021 [MO_Register 164, MO_Register 210, MO_Immediate 7]"

text \<open>\<open>VRNDSCALEPDZ128rri\<close> on ZMM2 with the immediate \<open>0x17\<close>.\<close>

definition MI_ZMM_imm_example :: MachineInstr where
  "MI_ZMM_imm_example = MI_example 1021 [MO_Register 210, MO_Register 145, MO_Immediate 0x17]"

text \<open>
  Instructions that fail an eligibility check: a VEX encoded one, one with the mask
  flag, one with the broadcast flag, one for each combination of the width bits with an
  entry only in a table that its bits do not select, and an EVEX encoded one with no
  entry at all.
\<close>

definition MI_VEX_example :: MachineInstr where
  "MI_VEX_example = MI_example 2100 [MO_Register 144, MO_Register 145]"

definition MI_masked_example :: MachineInstr where
  "MI_masked_example =
     MI_flags_example 1003 0x20030000000
       [MO_Register 144, MO_Register 145, MO_Register 146, MO_Immediate 3]"

definition MI_broadcast_example :: MachineInstr where
  "MI_broadcast_example =
     MI_flags_example 1003 0x100030000000
       [MO_Register 144, MO_Register 145, MO_Register 146, MO_Immediate 3]"

definition MI_W512_example :: MachineInstr where
  "MI_W512_example =
     MI_flags_example 1003 0x80030000000
       [MO_Register 144, MO_Register 145, MO_Register 146, MO_Immediate 3]"

definition MI_both_width_bits_example :: MachineInstr where
  "MI_both_width_bits_example =
     MI_flags_example 1012 0x90030000000
       [MO_Register 176, MO_Register 177, MO_Register 178, MO_Immediate 2]"

definition MI_W128_example :: MachineInstr where
  "MI_W128_example =
     MI_flags_example 1012 0x30000000
       [MO_Register 144, MO_Register 145, MO_Register 146, MO_Immediate 2]"

definition MI_W256_example :: MachineInstr where
  "MI_W256_example =
     MI_flags_example 1003 0x10030000000
       [MO_Register 176, MO_Register 177, MO_Register 178, MO_Immediate 3]"

definition MI_no_entry_example :: MachineInstr where
  "MI_no_entry_example = MI_example 1500 [MO_Register 144, MO_Register 145]"

text \<open>A function of two blocks, and the same function after the pass.\<close>

definition MF_example :: MachineFunction where
  "MF_example =
     \<lparr>hasAVX512 = True, getInstrInfo = TII_example,
      Blocks = [[MI_VALIGNQ_example, MI_hi_example],
                [MI_VSHUF_example 2, MI_example 2100 [MO_Register 144, MO_Register 145]]]\<rparr>"

definition MF_compressed_example :: MachineFunction where
  "MF_compressed_example =
     \<lparr>hasAVX512 = True, getInstrInfo = TII_example,
      Blocks = [[commit X86_example P_example
                   (MI_example 1003
                      [MO_Register 144, MO_Register 145, MO_Register 146, MO_Immediate 24]) 2001,
                 MI_hi_example],
                [commit X86_example P_example (MI_VSHUF_example 0x30) 2011,
                 MI_example 2100 [MO_Register 144, MO_Register 145]]]\<rparr>"


section \<open>Lemmas\<close>

text \<open>The definitions that evaluating an example unfolds.\<close>

lemmas example_defs =
  X86_example_def P_example_def MI_example_def TII_example_def EvexToVexInstPass_init_def
  AddTableEntry_def getOpcode_def isZMM_def isHiRegIdx_def
  VALIGN_labels_def VSHUF_labels_def VRNDSCALE_labels_def
  isEVEX_def TSFlag_set_def names_hi_register_def names_ZMM_register_def table_entry_def
  reaches_register_check_def last_explicit_is_Imm_def selects_VSHUF_def selects_VRNDSCALE_def
  commit_def setLastExplicitImm_def setAsmPrinterFlag_def setDesc_def getNumExplicitOperands_def
  ZMM_register_first_def ZMM_or_hi_def lane_select_remap_def
  MI_flags_example_def P_zero_example_def MI_VALIGNQ_example_def MI_VPALIGNR_example_def
  MI_VSHUF_example_def MI_VRNDSCALE_example_def MI_hi_example_def
  MI_ZMM_hi_example_def MI_hi_ZMM_example_def MI_VEX_example_def MI_masked_example_def
  MI_W512_example_def MI_both_width_bits_example_def MI_W128_example_def MI_W256_example_def
  MI_no_entry_example_def MI_broadcast_example_def MF_example_def MF_compressed_example_def
  MI_ZMM_imm_example_def P_both_example_def

lemmas impl_defs =
  CompressEvexToVexImpl_def performCustomAdjustments_def find_NewOpc_def
  usesExtendedRegister_def getLastExplicitOperand_def getImm_def Let_def

subsection \<open>Words\<close>

lemma and_hi_nibble: "(v :: 64 word) AND 0xF0 \<noteq> 0 \<Longrightarrow> (v AND 0xf) \<noteq> v"
proof
  assume a: "v AND 0xF0 \<noteq> 0" and b: "v AND 0xf = v"
  have "v AND 0xF0 = (v AND 0xf) AND 0xF0" using b by simp
  also have "\<dots> = v AND (0xf AND 0xF0)" by (simp only: and.assoc)
  also have "\<dots> = 0" by simp
  finally show False using a by simp
qed

lemma and_lo_nibble: "(v :: 64 word) \<le> 15 \<Longrightarrow> (v AND 0xf) = v"
  using less_mask_eq [of v 4] by (simp add: mask_eq_exp_minus_1 word_le_nat_alt word_less_nat_alt)

lemma TSFlags_mask_or:
  "(t AND (k OR b) \<noteq> 0) = ((t :: 64 word) AND k \<noteq> 0 \<or> t AND b \<noteq> 0)"
  by (simp add: bit.conj_disj_distrib or_eq_0_iff)

lemma ucast_NewOpc_zero: "(ucast (v :: 16 word) :: 32 word) = 0 \<longleftrightarrow> v = 0"
proof
  assume "(ucast v :: 32 word) = 0"
  then have "(ucast (ucast v :: 32 word) :: 16 word) = ucast (0 :: 32 word)" by simp
  then show "v = 0" by (simp add: ucast_up_ucast_id is_up)
qed simp

subsection \<open>The switch\<close>

lemma selects_VSHUF_labels:
  "inj (X86_opc X) \<Longrightarrow> selects_VSHUF X Opc = (Opc \<in> VSHUF_labels X)"
  by (auto simp: selects_VSHUF_def VSHUF_labels_def VALIGN_labels_def dest: injD)

lemma selects_VRNDSCALE_labels:
  "inj (X86_opc X) \<Longrightarrow> selects_VRNDSCALE X Opc = (Opc \<in> VRNDSCALE_labels X)"
  by (auto simp: selects_VRNDSCALE_def VRNDSCALE_labels_def VSHUF_labels_def VALIGN_labels_def dest: injD)

subsection \<open>The loop of usesExtendedRegister\<close>

lemma usesExtendedRegister_loop_no_ZMM:
  "\<not> (\<exists>MO \<in> set MOs. case MO of MO_Register Reg \<Rightarrow> isZMM X Reg | _ \<Rightarrow> False) \<Longrightarrow>
   usesExtendedRegister_loop X MOs =
     Inr (\<exists>MO \<in> set MOs. case MO of MO_Register Reg \<Rightarrow> isHiRegIdx X Reg | _ \<Rightarrow> False)"
  by (induction X MOs rule: usesExtendedRegister_loop.induct) auto

lemma usesExtendedRegister_loop_fault:
  "usesExtendedRegister_loop X MOs = Inl f \<Longrightarrow>
   f = ZMM_in_EVEX2VEX_tables \<and>
   (\<exists>MO \<in> set MOs. case MO of MO_Register Reg \<Rightarrow> isZMM X Reg | _ \<Rightarrow> False)"
  by (induction X MOs rule: usesExtendedRegister_loop.induct) (auto split: if_splits)

lemma usesExtendedRegister_loop_hi:
  "\<exists>MO \<in> set MOs. case MO of MO_Register Reg \<Rightarrow> isHiRegIdx X Reg | _ \<Rightarrow> False \<Longrightarrow>
   usesExtendedRegister_loop X MOs \<noteq> Inr False"
  by (induction X MOs rule: usesExtendedRegister_loop.induct) (auto split: if_splits)

lemma usesExtendedRegister_loop_True:
  "usesExtendedRegister_loop X MOs = Inr True \<Longrightarrow>
   \<exists>MO \<in> set MOs. case MO of MO_Register Reg \<Rightarrow> isHiRegIdx X Reg | _ \<Rightarrow> False"
  by (induction X MOs rule: usesExtendedRegister_loop.induct) (auto split: if_splits)

lemma usesExtendedRegister_loop_ZMM_only:
  "\<exists>MO \<in> set MOs. case MO of MO_Register Reg \<Rightarrow> isZMM X Reg | _ \<Rightarrow> False \<Longrightarrow>
   \<not> (\<exists>MO \<in> set MOs. case MO of MO_Register Reg \<Rightarrow> isHiRegIdx X Reg | _ \<Rightarrow> False) \<Longrightarrow>
   usesExtendedRegister_loop X MOs = Inl ZMM_in_EVEX2VEX_tables"
  by (induction X MOs rule: usesExtendedRegister_loop.induct) (auto split: if_splits)

lemma usesExtendedRegister_loop_ZMM_first:
  "(usesExtendedRegister_loop X MOs = Inl f) =
   (f = ZMM_in_EVEX2VEX_tables \<and>
    (case find (ZMM_or_hi X) MOs of Some (MO_Register Reg) \<Rightarrow> isZMM X Reg | _ \<Rightarrow> False))"
  by (induction X MOs rule: usesExtendedRegister_loop.induct) (auto simp: ZMM_or_hi_def)

lemma usesExtendedRegister_no_ZMM:
  "\<not> names_ZMM_register X MI \<Longrightarrow> usesExtendedRegister X MI = Inr (names_hi_register X MI)"
  unfolding names_ZMM_register_def names_hi_register_def usesExtendedRegister_def
  by (rule usesExtendedRegister_loop_no_ZMM)

lemma usesExtendedRegister_fault:
  "usesExtendedRegister X MI = Inl f \<Longrightarrow> f = ZMM_in_EVEX2VEX_tables \<and> names_ZMM_register X MI"
  unfolding names_ZMM_register_def usesExtendedRegister_def
  by (rule usesExtendedRegister_loop_fault)

lemma usesExtendedRegister_hi:
  "names_hi_register X MI \<Longrightarrow> usesExtendedRegister X MI \<noteq> Inr False"
  unfolding names_hi_register_def usesExtendedRegister_def
  by (rule usesExtendedRegister_loop_hi)

lemma usesExtendedRegister_True:
  "usesExtendedRegister X MI = Inr True \<Longrightarrow> names_hi_register X MI"
  unfolding names_hi_register_def usesExtendedRegister_def
  by (rule usesExtendedRegister_loop_True)

lemma usesExtendedRegister_ZMM_only:
  "names_ZMM_register X MI \<Longrightarrow> \<not> names_hi_register X MI \<Longrightarrow>
   usesExtendedRegister X MI = Inl ZMM_in_EVEX2VEX_tables"
  unfolding names_ZMM_register_def names_hi_register_def usesExtendedRegister_def
  by (rule usesExtendedRegister_loop_ZMM_only)

lemma usesExtendedRegister_ZMM_first:
  "(usesExtendedRegister X MI = Inl f) = (f = ZMM_in_EVEX2VEX_tables \<and> ZMM_register_first X MI)"
  by (simp add: usesExtendedRegister_def ZMM_register_first_def usesExtendedRegister_loop_ZMM_first)

lemma usesExtendedRegister_True_iff:
  "(usesExtendedRegister X MI = Inr True) =
   (names_hi_register X MI \<and> \<not> ZMM_register_first X MI)"
proof (cases "usesExtendedRegister X MI")
  case (Inl f)
  then show ?thesis using usesExtendedRegister_ZMM_first [of X MI f] by simp
next
  case (Inr u)
  then have "\<not> ZMM_register_first X MI"
    using usesExtendedRegister_ZMM_first [of X MI ZMM_in_EVEX2VEX_tables] by simp
  with Inr usesExtendedRegister_hi [of X MI] usesExtendedRegister_True [of X MI]
  show ?thesis by auto
qed

lemma ZMM_register_first_names:
  "ZMM_register_first X MI \<Longrightarrow> names_ZMM_register X MI"
  using usesExtendedRegister_ZMM_first [of X MI ZMM_in_EVEX2VEX_tables]
    usesExtendedRegister_fault [of X MI ZMM_in_EVEX2VEX_tables] by simp

subsection \<open>performCustomAdjustments, group by group\<close>

lemma getLastExplicitOperand_Imm:
  "last_explicit_is_Imm MI v \<Longrightarrow> getLastExplicitOperand MI = Inr (MO_Immediate v)"
  by (auto simp: last_explicit_is_Imm_def getLastExplicitOperand_def getNumExplicitOperands_def
        last_conv_nth)

lemma getLastExplicitOperand_getImm:
  "getLastExplicitOperand MI = Inr Imm \<Longrightarrow> getImm Imm = Inr v \<Longrightarrow> last_explicit_is_Imm MI v"
  by (auto simp: last_explicit_is_Imm_def getLastExplicitOperand_def getNumExplicitOperands_def
        getImm_def last_conv_nth split: if_splits MachineOperand.splits)

lemma last_explicit_is_Imm_setLastExplicitImm:
  "explicit_operands MI \<noteq> [] \<Longrightarrow> last_explicit_is_Imm (setLastExplicitImm MI v) v"
  by (simp add: last_explicit_is_Imm_def setLastExplicitImm_def getNumExplicitOperands_def
        last_conv_nth)

lemma last_explicit_is_Imm_nth:
  "last_explicit_is_Imm MI v \<Longrightarrow>
   explicit_operands MI ! (length (explicit_operands MI) - 1) = MO_Immediate v"
  by (auto simp: last_explicit_is_Imm_def last_conv_nth)

lemma performCustomAdjustments_False:
  "performCustomAdjustments X MI NewOpc = Inr (False, MI') \<Longrightarrow> MI' = MI"
  by (auto simp: performCustomAdjustments_def Let_def split: if_splits sum.splits)

lemma performCustomAdjustments_VRNDSCALE:
  "selects_VRNDSCALE X (getOpcode MI) \<Longrightarrow> last_explicit_is_Imm MI v \<Longrightarrow>
   performCustomAdjustments X MI NewOpc = Inr ((v AND 0xf) = v, MI)"
  by (simp add: performCustomAdjustments_def selects_VRNDSCALE_def Let_def
        getLastExplicitOperand_Imm getImm_def)

lemma performCustomAdjustments_VSHUF:
  "selects_VSHUF X (getOpcode MI) \<Longrightarrow>
   NewOpc \<in> X86_opc X ` {VPERM2F128rr, VPERM2I128rr, VPERM2F128rm, VPERM2I128rm} \<Longrightarrow>
   last_explicit_is_Imm MI v \<Longrightarrow>
   performCustomAdjustments X MI NewOpc =
     Inr (True, setLastExplicitImm MI (0x20 OR push_bit 3 (v AND 2) OR (v AND 1)))"
  by (auto simp: performCustomAdjustments_def selects_VSHUF_def Let_def
        getLastExplicitOperand_Imm getImm_def)

lemma performCustomAdjustments_True:
  assumes "performCustomAdjustments X MI NewOpc = Inr (True, MI')"
  shows "MI' = MI \<or>
         (getOpcode MI \<in> VALIGN_labels X \<union> VSHUF_labels X \<and>
          (\<exists>v v'. last_explicit_is_Imm MI v \<and> MI' = setLastExplicitImm MI v'))"
  using assms
  by (auto simp: performCustomAdjustments_def Let_def
      split: if_splits sum.splits dest: getLastExplicitOperand_getImm)

lemma performCustomAdjustments_fault:
  "performCustomAdjustments X MI NewOpc = Inl f \<Longrightarrow> f \<noteq> ZMM_in_EVEX2VEX_tables"
  by (auto simp: performCustomAdjustments_def Let_def getLastExplicitOperand_def getImm_def
      split: if_splits sum.splits MachineOperand.splits)

lemma setLastExplicitImm_frame:
  "MCID (setLastExplicitImm MI v) = MCID MI"
  "implicit_operands (setLastExplicitImm MI v) = implicit_operands MI"
  "AsmPrinterFlags (setLastExplicitImm MI v) = AsmPrinterFlags MI"
  "length (explicit_operands (setLastExplicitImm MI v)) = length (explicit_operands MI)"
  "i \<noteq> length (explicit_operands MI) - 1 \<Longrightarrow>
   explicit_operands (setLastExplicitImm MI v) ! i = explicit_operands MI ! i"
  by (simp_all add: setLastExplicitImm_def getNumExplicitOperands_def)

lemma commit_frame:
  "MCID (commit X P MI NewOpc) = TII P NewOpc"
  "explicit_operands (commit X P MI NewOpc) = explicit_operands MI"
  "implicit_operands (commit X P MI NewOpc) = implicit_operands MI"
  "AsmPrinterFlags (commit X P MI NewOpc) = AsmPrinterFlags MI OR AC_EVEX_2_VEX X"
  by (simp_all add: commit_def setAsmPrinterFlag_def setDesc_def)

subsection \<open>The stages of CompressEvexToVexImpl\<close>

lemma find_NewOpc_None: "T k = None \<Longrightarrow> find_NewOpc T k d = d"
  by (simp add: find_NewOpc_def)

lemma find_NewOpc_Some: "T k = Some v \<Longrightarrow> find_NewOpc T k d = ucast v"
  by (simp add: find_NewOpc_def)

lemma CompressEvexToVexImpl_False:
  "CompressEvexToVexImpl X P MI = Inr (False, MI') \<Longrightarrow> MI' = MI"
  by (auto simp: CompressEvexToVexImpl_def Let_def
           split: if_splits sum.splits bool.splits prod.splits
           dest: performCustomAdjustments_False)

lemma CompressEvexToVexImpl_not_reaching:
  assumes "\<forall>NewOpc. \<not> reaches_register_check X P MI NewOpc"
  shows "CompressEvexToVexImpl X P MI = Inr (False, MI)"
proof (cases "table_entry X P MI")
  case None
  then show ?thesis
    by (auto simp: CompressEvexToVexImpl_def TSFlag_set_def table_entry_def Let_def
          find_NewOpc_None split: if_splits)
next
  case (Some v)
  with assms have "\<not> isEVEX X MI \<or> TSFlag_set MI (EVEX_K X) \<or> TSFlag_set MI (EVEX_B X) \<or> v = 0"
    by (simp add: reaches_register_check_def)
  with Some show ?thesis
    by (auto simp: CompressEvexToVexImpl_def isEVEX_def TSFlag_set_def table_entry_def Let_def
          find_NewOpc_Some TSFlags_mask_or split: if_splits)
qed

lemma CompressEvexToVexImpl_reaching:
  assumes "reaches_register_check X P MI NewOpc"
  shows "CompressEvexToVexImpl X P MI =
     (case usesExtendedRegister X MI of
        Inl f \<Rightarrow> Inl f
      | Inr True \<Rightarrow> Inr (False, MI)
      | Inr False \<Rightarrow>
          (case performCustomAdjustments X MI NewOpc of
             Inl f \<Rightarrow> Inl f
           | Inr (False, MI') \<Rightarrow> Inr (False, MI')
           | Inr (True, MI') \<Rightarrow> Inr (True, commit X P MI' NewOpc)))"
proof -
  from assms obtain v where v: "table_entry X P MI = Some v" "v \<noteq> 0" "NewOpc = ucast v"
    and e: "isEVEX X MI" "\<not> TSFlag_set MI (EVEX_K X)" "\<not> TSFlag_set MI (EVEX_B X)"
    by (auto simp: reaches_register_check_def split: option.splits)
  from v have n: "NewOpc \<noteq> 0" by (simp add: ucast_NewOpc_zero)
  from v have l2: "\<not> TSFlag_set MI (EVEX_L2 X)"
    by (auto simp: table_entry_def split: if_splits)
  show ?thesis
  proof (cases "TSFlag_set MI (VEX_L X)")
    case True
    with v l2 have fn: "NewOpc = find_NewOpc (EvexToVex256Table P) (getOpcode MI) 0"
      by (simp add: table_entry_def find_NewOpc_Some)
    from True l2 e n show ?thesis
      unfolding fn commit_def
      by (simp add: CompressEvexToVexImpl_def isEVEX_def TSFlag_set_def Let_def
            TSFlags_mask_or commit_def)
  next
    case False
    with v l2 have fn: "NewOpc = find_NewOpc (EvexToVex128Table P) (getOpcode MI) 0"
      by (simp add: table_entry_def find_NewOpc_Some)
    from False l2 e n show ?thesis
      unfolding fn commit_def
      by (simp add: CompressEvexToVexImpl_def isEVEX_def TSFlag_set_def Let_def
            TSFlags_mask_or commit_def)
  qed
qed

lemma CompressEvexToVexImpl_True_reaches:
  assumes "CompressEvexToVexImpl X P MI = Inr (True, MI')"
  shows "\<exists>NewOpc. reaches_register_check X P MI NewOpc"
proof (rule ccontr)
  assume "\<not> ?thesis"
  then have "CompressEvexToVexImpl X P MI = Inr (False, MI)"
    by (simp add: CompressEvexToVexImpl_not_reaching)
  with assms show False by simp
qed

lemma reaches_register_check_unique:
  "reaches_register_check X P MI a \<Longrightarrow> reaches_register_check X P MI b \<Longrightarrow> a = b"
  by (auto simp: reaches_register_check_def split: option.splits)

lemma CompressEvexToVexImpl_True:
  assumes "CompressEvexToVexImpl X P MI = Inr (True, MI')"
  shows "\<exists>NewOpc MI''. reaches_register_check X P MI NewOpc \<and>
           usesExtendedRegister X MI = Inr False \<and>
           performCustomAdjustments X MI NewOpc = Inr (True, MI'') \<and>
           MI' = commit X P MI'' NewOpc"
proof -
  from assms obtain NewOpc where r: "reaches_register_check X P MI NewOpc"
    using CompressEvexToVexImpl_True_reaches by blast
  from assms show ?thesis
    unfolding CompressEvexToVexImpl_reaching [OF r]
    using r by (auto split: sum.splits bool.splits prod.splits)
qed

lemma CompressEvexToVexImpl_ZMM_fault:
  "(CompressEvexToVexImpl X P MI = Inl ZMM_in_EVEX2VEX_tables) =
   ((\<exists>NewOpc. reaches_register_check X P MI NewOpc) \<and> ZMM_register_first X MI)"
proof (cases "\<exists>NewOpc. reaches_register_check X P MI NewOpc")
  case False
  then have "CompressEvexToVexImpl X P MI = Inr (False, MI)"
    by (simp add: CompressEvexToVexImpl_not_reaching)
  with False show ?thesis by simp
next
  case True
  then obtain NewOpc where r: "reaches_register_check X P MI NewOpc" by blast
  show ?thesis
  proof (cases "usesExtendedRegister X MI")
    case (Inl f)
    then show ?thesis
      using True usesExtendedRegister_ZMM_first [of X MI f]
      by (simp add: CompressEvexToVexImpl_reaching [OF r])
  next
    case (Inr u)
    then have "\<not> ZMM_register_first X MI"
      using usesExtendedRegister_ZMM_first [of X MI ZMM_in_EVEX2VEX_tables] by simp
    moreover have "CompressEvexToVexImpl X P MI \<noteq> Inl ZMM_in_EVEX2VEX_tables"
      using Inr performCustomAdjustments_fault [of X MI NewOpc]
      by (auto simp: CompressEvexToVexImpl_reaching [OF r] split: sum.splits bool.splits prod.splits)
    ultimately show ?thesis by simp
  qed
qed

text \<open>A hit in the table of the width class, and where a rewrite takes its opcode from.\<close>

lemma own_partition_hit:
  assumes "isEVEX X MI" "\<not> TSFlag_set MI (EVEX_K X)" "\<not> TSFlag_set MI (EVEX_B X)"
    and "table_entry X P MI = Some v" "v \<noteq> 0"
    and "usesExtendedRegister X MI = Inr False"
    and "performCustomAdjustments X MI (ucast v) = Inr (True, MI'')"
  shows "CompressEvexToVexImpl X P MI = Inr (True, commit X P MI'' (ucast v))"
proof -
  from assms(1-5) have r: "reaches_register_check X P MI (ucast v)"
    by (simp add: reaches_register_check_def)
  from assms(6,7) show ?thesis by (simp add: CompressEvexToVexImpl_reaching [OF r])
qed

lemma rewrite_uses_own_partition:
  assumes "CompressEvexToVexImpl X P MI = Inr (True, MI')"
  shows "\<exists>v. table_entry X P MI = Some v \<and> v \<noteq> 0 \<and> MCID MI' = TII P (ucast v)"
proof -
  from CompressEvexToVexImpl_True [OF assms] obtain NewOpc MI'' where
    r: "reaches_register_check X P MI NewOpc" and m: "MI' = commit X P MI'' NewOpc"
    by blast
  from r obtain v where "table_entry X P MI = Some v" "v \<noteq> 0" "NewOpc = ucast v"
    by (auto simp: reaches_register_check_def split: option.splits)
  with m show ?thesis by (simp add: commit_frame)
qed

subsection \<open>A second attempt on the result of the first\<close>

lemma InitTable_values:
  "InitTable T Entries k = Some v \<Longrightarrow> T k = Some v \<or> v \<in> VexOpcode ` set Entries"
  by (induction T Entries rule: InitTable.induct)
     (auto simp: AddTableEntry_def split: if_splits)

lemma short_forms_not_EVEX_init:
  assumes "short_forms_not_EVEX X tii"
    and "EvexToVex128Table (EvexToVexInstPass_init X t) k = Some v \<or>
         EvexToVex256Table (EvexToVexInstPass_init X t) k = Some v"
  shows "(TSFlags (tii (ucast v)) AND EncodingMask X) \<noteq> EVEX X"
proof -
  from assms(2) have "v \<in> VexOpcode ` set (X86EvexToVex128CompressTable X @
                                             X86EvexToVex256CompressTable X)"
    by (auto simp: EvexToVexInstPass_init_def dest!: InitTable_values)
  with assms(1) show ?thesis by (auto simp: short_forms_not_EVEX_def)
qed

lemma CompressEvexToVexImpl_again:
  assumes inv: "\<forall>k v. EvexToVex128Table P k = Some v \<or> EvexToVex256Table P k = Some v \<longrightarrow>
                  (TSFlags (TII P (ucast v)) AND EncodingMask X) \<noteq> EVEX X"
    and "CompressEvexToVexImpl X P MI = Inr (c, MI')"
  shows "CompressEvexToVexImpl X P MI' = Inr (False, MI') \<and> (c \<longrightarrow> \<not> isEVEX X MI')"
proof (cases c)
  case False
  with assms(2) have "MI' = MI" by (simp add: CompressEvexToVexImpl_False)
  with assms(2) False show ?thesis by simp
next
  case True
  with assms(2) have "CompressEvexToVexImpl X P MI = Inr (True, MI')" by simp
  then obtain NewOpc MI'' where r: "reaches_register_check X P MI NewOpc"
    and m: "MI' = commit X P MI'' NewOpc"
    using CompressEvexToVexImpl_True by blast
  from r obtain v where "table_entry X P MI = Some v" "NewOpc = ucast v"
    by (auto simp: reaches_register_check_def split: option.splits)
  then have "(TSFlags (TII P NewOpc) AND EncodingMask X) \<noteq> EVEX X"
    using inv by (auto simp: table_entry_def split: if_splits)
  with m have e: "\<not> isEVEX X MI'"
    by (simp add: isEVEX_def commit_def setAsmPrinterFlag_def setDesc_def)
  then have "\<forall>N. \<not> reaches_register_check X P MI' N"
    by (simp add: reaches_register_check_def)
  then have "CompressEvexToVexImpl X P MI' = Inr (False, MI')"
    by (rule CompressEvexToVexImpl_not_reaching)
  with e show ?thesis by simp
qed

lemma traverse_MBB_again:
  assumes inv: "\<forall>k v. EvexToVex128Table P k = Some v \<or> EvexToVex256Table P k = Some v \<longrightarrow>
                  (TSFlags (TII P (ucast v)) AND EncodingMask X) \<noteq> EVEX X"
  shows "traverse_MBB X P MIs Changed = Inr (Changed', MIs') \<Longrightarrow>
         traverse_MBB X P MIs' C = Inr (C, MIs')"
proof (induction MIs arbitrary: Changed Changed' MIs' C)
  case Nil
  then show ?case by simp
next
  case (Cons MI MIs)
  from Cons.prems obtain c MI' Ch Ms where
    i: "CompressEvexToVexImpl X P MI = Inr (c, MI')"
    and t: "traverse_MBB X P MIs (Changed \<or> c) = Inr (Ch, Ms)"
    and e: "MIs' = MI' # Ms"
    by (auto split: sum.splits prod.splits)
  from CompressEvexToVexImpl_again [OF inv i]
  have "CompressEvexToVexImpl X P MI' = Inr (False, MI')" by simp
  moreover from Cons.IH [OF t] have "traverse_MBB X P Ms C = Inr (C, Ms)" .
  ultimately show ?case using e by simp
qed

lemma traverse_MF_again:
  assumes inv: "\<forall>k v. EvexToVex128Table P k = Some v \<or> EvexToVex256Table P k = Some v \<longrightarrow>
                  (TSFlags (TII P (ucast v)) AND EncodingMask X) \<noteq> EVEX X"
  shows "traverse_MF X P MBBs Changed = Inr (Changed', MBBs') \<Longrightarrow>
         traverse_MF X P MBBs' C = Inr (C, MBBs')"
proof (induction MBBs arbitrary: Changed Changed' MBBs' C)
  case Nil
  then show ?case by simp
next
  case (Cons MBB MBBs)
  from Cons.prems obtain Ch MBB' Ch' Bs where
    b: "traverse_MBB X P MBB Changed = Inr (Ch, MBB')"
    and t: "traverse_MF X P MBBs Ch = Inr (Ch', Bs)"
    and e: "MBBs' = MBB' # Bs"
    by (auto split: sum.splits prod.splits)
  from traverse_MBB_again [OF inv b] have "traverse_MBB X P MBB' C = Inr (C, MBB')" .
  moreover from Cons.IH [OF t] have "traverse_MF X P Bs C = Inr (C, Bs)" .
  ultimately show ?case using e by simp
qed

section \<open>The properties\<close>

text \<open>
  Claim C1 (amended). Where the attempt fails at a stage, \<open>CompressEvexToVexImpl\<close>
  returns false and the instruction is the one it was given. The stages are: the
  encoding is not EVEX; the mask or the broadcast flag is set; \<open>EVEX_L2\<close> is set (W512,
  or both width bits); the table of the width class has no entry; an explicit register
  operand names a high XMM or YMM register; the opcode is one of the \<open>VRNDSCALE\<close> labels
  and the immediate has a bit above bit 3. For the last two stages this holds unless a
  ZMM register comes first: on an instruction that reaches the register check with a ZMM
  register first, the assertion of \<open>usesExtendedRegister\<close> fails and the function
  returns nothing. Whenever the function returns false, for whatever reason, the
  instruction is unchanged: opcode, explicit and implicit operands and asm-printer flags.
\<close>

theorem failure_leaves_instruction_unchanged:
  "(\<not> isEVEX X MI \<or> TSFlag_set MI (EVEX_K X) \<or> TSFlag_set MI (EVEX_B X) \<or>
    TSFlag_set MI (EVEX_L2 X) \<or> table_entry X P MI = None \<or>
    (\<not> ZMM_register_first X MI \<and>
     (names_hi_register X MI \<or>
      (selects_VRNDSCALE X (getOpcode MI) \<and> last_explicit_is_Imm MI v \<and> (v AND 0xf) \<noteq> v)))
    \<longrightarrow> CompressEvexToVexImpl X P MI = Inr (False, MI)) \<and>
   (\<forall>MI'. CompressEvexToVexImpl X P MI = Inr (False, MI') \<longrightarrow>
      MI' = MI \<and> getOpcode MI' = getOpcode MI \<and>
      explicit_operands MI' = explicit_operands MI \<and>
      implicit_operands MI' = implicit_operands MI \<and>
      AsmPrinterFlags MI' = AsmPrinterFlags MI) \<and>
   (\<forall>NewOpc. reaches_register_check X P MI NewOpc \<and> ZMM_register_first X MI \<longrightarrow>
      CompressEvexToVexImpl X P MI = Inl ZMM_in_EVEX2VEX_tables)"
proof (intro conjI impI allI)
  assume a: "\<not> isEVEX X MI \<or> TSFlag_set MI (EVEX_K X) \<or> TSFlag_set MI (EVEX_B X) \<or>
    TSFlag_set MI (EVEX_L2 X) \<or> table_entry X P MI = None \<or>
    (\<not> ZMM_register_first X MI \<and>
     (names_hi_register X MI \<or>
      (selects_VRNDSCALE X (getOpcode MI) \<and> last_explicit_is_Imm MI v \<and> (v AND 0xf) \<noteq> v)))"
  show "CompressEvexToVexImpl X P MI = Inr (False, MI)"
  proof (cases "\<exists>NewOpc. reaches_register_check X P MI NewOpc")
    case False
    then show ?thesis by (simp add: CompressEvexToVexImpl_not_reaching)
  next
    case True
    then obtain NewOpc where r: "reaches_register_check X P MI NewOpc" by blast
    then have "isEVEX X MI" "\<not> TSFlag_set MI (EVEX_K X)" "\<not> TSFlag_set MI (EVEX_B X)"
      "\<not> TSFlag_set MI (EVEX_L2 X)" "table_entry X P MI \<noteq> None"
      by (auto simp: reaches_register_check_def table_entry_def split: option.splits if_splits)
    with a have z: "\<not> ZMM_register_first X MI"
      and b: "names_hi_register X MI \<or>
        (selects_VRNDSCALE X (getOpcode MI) \<and> last_explicit_is_Imm MI v \<and> (v AND 0xf) \<noteq> v)"
      by blast+
    from z obtain u where u: "usesExtendedRegister X MI = Inr u"
      using usesExtendedRegister_ZMM_first [of X MI]
      by (cases "usesExtendedRegister X MI") auto
    show ?thesis
    proof (cases u)
      case True
      with u show ?thesis by (simp add: CompressEvexToVexImpl_reaching [OF r])
    next
      case False
      with u usesExtendedRegister_hi [of X MI] have "\<not> names_hi_register X MI" by auto
      with b have "performCustomAdjustments X MI NewOpc = Inr (False, MI)"
        using performCustomAdjustments_VRNDSCALE [of X MI v NewOpc] by auto
      with False u show ?thesis by (simp add: CompressEvexToVexImpl_reaching [OF r])
    qed
  qed
next
  fix MI'
  assume "CompressEvexToVexImpl X P MI = Inr (False, MI')"
  then have "MI' = MI" by (rule CompressEvexToVexImpl_False)
  then show "MI' = MI" "getOpcode MI' = getOpcode MI"
    "explicit_operands MI' = explicit_operands MI"
    "implicit_operands MI' = implicit_operands MI"
    "AsmPrinterFlags MI' = AsmPrinterFlags MI"
    by simp_all
next
  fix NewOpc
  assume "reaches_register_check X P MI NewOpc \<and> ZMM_register_first X MI"
  then show "CompressEvexToVexImpl X P MI = Inl ZMM_in_EVEX2VEX_tables"
    using CompressEvexToVexImpl_ZMM_fault [of X P MI] by blast
qed

text \<open>
  One instruction for each of the stages, and one with ZMM2 first on which the assertion
  fails.
\<close>

theorem failure_leaves_instruction_unchanged_witness:
  "(\<not> isEVEX X86_example MI_VEX_example \<and>
    CompressEvexToVexImpl X86_example P_example MI_VEX_example = Inr (False, MI_VEX_example)) \<and>
   (TSFlag_set MI_masked_example (EVEX_K X86_example) \<and>
    CompressEvexToVexImpl X86_example P_example MI_masked_example =
      Inr (False, MI_masked_example)) \<and>
   (TSFlag_set MI_W512_example (EVEX_L2 X86_example) \<and>
    CompressEvexToVexImpl X86_example P_example MI_W512_example =
      Inr (False, MI_W512_example)) \<and>
   (table_entry X86_example P_example MI_no_entry_example = None \<and>
    CompressEvexToVexImpl X86_example P_example MI_no_entry_example =
      Inr (False, MI_no_entry_example)) \<and>
   (names_hi_register X86_example MI_hi_example \<and>
    \<not> ZMM_register_first X86_example MI_hi_example \<and>
    CompressEvexToVexImpl X86_example P_example MI_hi_example = Inr (False, MI_hi_example)) \<and>
   (selects_VRNDSCALE X86_example (getOpcode (MI_VRNDSCALE_example 0x17)) \<and>
    last_explicit_is_Imm (MI_VRNDSCALE_example 0x17) 0x17 \<and>
    \<not> ZMM_register_first X86_example (MI_VRNDSCALE_example 0x17) \<and>
    CompressEvexToVexImpl X86_example P_example (MI_VRNDSCALE_example 0x17) =
      Inr (False, MI_VRNDSCALE_example 0x17)) \<and>
   (reaches_register_check X86_example P_example MI_ZMM_imm_example 2021 \<and>
    ZMM_register_first X86_example MI_ZMM_imm_example \<and>
    CompressEvexToVexImpl X86_example P_example MI_ZMM_imm_example =
      Inl ZMM_in_EVEX2VEX_tables)"
proof -
  have 1: "\<not> isEVEX X86_example MI_VEX_example" by (simp add: example_defs)
  have 2: "TSFlag_set MI_masked_example (EVEX_K X86_example)" by (simp add: example_defs)
  have 3: "TSFlag_set MI_W512_example (EVEX_L2 X86_example)" by (simp add: example_defs)
  have 4: "table_entry X86_example P_example MI_no_entry_example = None"
    by (simp add: example_defs)
  have 5: "names_hi_register X86_example MI_hi_example"
    "\<not> ZMM_register_first X86_example MI_hi_example"
    by (simp_all add: example_defs)
  have 6: "selects_VRNDSCALE X86_example (getOpcode (MI_VRNDSCALE_example 0x17))"
    "last_explicit_is_Imm (MI_VRNDSCALE_example 0x17) 0x17"
    "\<not> ZMM_register_first X86_example (MI_VRNDSCALE_example 0x17)"
    "((0x17 :: 64 word) AND 0xf) \<noteq> 0x17"
    by (simp_all add: example_defs)
  have 7: "reaches_register_check X86_example P_example MI_ZMM_imm_example 2021"
    "ZMM_register_first X86_example MI_ZMM_imm_example"
    by (simp_all add: example_defs)
  have a: "CompressEvexToVexImpl X86_example P_example MI_VEX_example =
             Inr (False, MI_VEX_example)"
    using 1 failure_leaves_instruction_unchanged [of X86_example MI_VEX_example P_example]
    by blast
  have b: "CompressEvexToVexImpl X86_example P_example MI_masked_example =
             Inr (False, MI_masked_example)"
    using 2 failure_leaves_instruction_unchanged [of X86_example MI_masked_example P_example]
    by blast
  have c: "CompressEvexToVexImpl X86_example P_example MI_W512_example =
             Inr (False, MI_W512_example)"
    using 3 failure_leaves_instruction_unchanged [of X86_example MI_W512_example P_example]
    by blast
  have d: "CompressEvexToVexImpl X86_example P_example MI_no_entry_example =
             Inr (False, MI_no_entry_example)"
    using 4 failure_leaves_instruction_unchanged [of X86_example MI_no_entry_example P_example]
    by blast
  have e: "CompressEvexToVexImpl X86_example P_example MI_hi_example =
             Inr (False, MI_hi_example)"
    using 5 failure_leaves_instruction_unchanged [of X86_example MI_hi_example P_example]
    by blast
  have f: "CompressEvexToVexImpl X86_example P_example (MI_VRNDSCALE_example 0x17) =
             Inr (False, MI_VRNDSCALE_example 0x17)"
    using 6 failure_leaves_instruction_unchanged
      [of X86_example "MI_VRNDSCALE_example 0x17" P_example "0x17"]
    by blast
  have g: "CompressEvexToVexImpl X86_example P_example MI_ZMM_imm_example =
             Inl ZMM_in_EVEX2VEX_tables"
    using 7 failure_leaves_instruction_unchanged [of X86_example MI_ZMM_imm_example P_example]
    by blast
  from 1 2 3 4 5 6 7 a b c d e f g show ?thesis by simp
qed

text \<open>
  Without the condition on ZMM registers the first part fails: the instruction is EVEX
  encoded, has an entry in the 128 table and names XMM20, so an extended register is
  present, but ZMM2 comes first, the assertion fails, and false is not returned.
\<close>

theorem failing_stage_behind_ZMM_counterexample:
  "isEVEX X86_example MI_ZMM_hi_example \<and>
   table_entry X86_example P_example MI_ZMM_hi_example = Some 2021 \<and>
   names_hi_register X86_example MI_ZMM_hi_example \<and>
   CompressEvexToVexImpl X86_example P_example MI_ZMM_hi_example \<noteq>
     Inr (False, MI_ZMM_hi_example)"
  by (simp add: example_defs impl_defs)

text \<open>
  Claim C2. Let no short form of the generated tables be EVEX encoded. If a run of the
  pass on a function returns, a second run on its result returns false and changes
  nothing. The reason is the first check: every instruction that the pass has rewritten
  carries the descriptor of a short form, so it is not EVEX encoded and a further
  attempt on it returns false.
\<close>

theorem second_run_changes_nothing:
  assumes "short_forms_not_EVEX X (getInstrInfo MF)"
    and "runOnMachineFunction X (EvexToVexInstPass_init X tii) MF = Inr (Changed, MF')"
  shows "runOnMachineFunction X (EvexToVexInstPass_init X tii) MF' = Inr (False, MF') \<and>
         (\<forall>MI MI'. CompressEvexToVexImpl X (EvexToVexInstPass_init X (getInstrInfo MF)) MI =
                      Inr (True, MI') \<longrightarrow>
            \<not> isEVEX X MI' \<and>
            CompressEvexToVexImpl X (EvexToVexInstPass_init X (getInstrInfo MF)) MI' =
              Inr (False, MI'))"
proof -
  let ?P = "EvexToVexInstPass_init X (getInstrInfo MF)"
  have "(TSFlags (TII ?P (ucast v)) AND EncodingMask X) \<noteq> EVEX X"
    if "EvexToVex128Table ?P k = Some v \<or> EvexToVex256Table ?P k = Some v" for k v
    using short_forms_not_EVEX_init [OF assms(1) that]
    by (simp add: EvexToVexInstPass_init_def)
  then have inv: "\<forall>k v. EvexToVex128Table ?P k = Some v \<or> EvexToVex256Table ?P k = Some v \<longrightarrow>
                  (TSFlags (TII ?P (ucast v)) AND EncodingMask X) \<noteq> EVEX X"
    by blast
  have run: "runOnMachineFunction X (EvexToVexInstPass_init X tii) F =
             (if \<not> hasAVX512 F then Inr (False, F)
              else case traverse_MF X ?P (Blocks F) False of
                     Inl f \<Rightarrow> Inl f
                   | Inr (Ch, MBBs) \<Rightarrow> Inr (Ch, F\<lparr>Blocks := MBBs\<rparr>))"
    if "getInstrInfo F = getInstrInfo MF" for F
    using that by (simp add: runOnMachineFunction_def EvexToVexInstPass_init_def)
  have 1: "runOnMachineFunction X (EvexToVexInstPass_init X tii) MF' = Inr (False, MF')"
  proof (cases "hasAVX512 MF")
    case False
    with assms(2) have "MF' = MF" by (simp add: run)
    with False show ?thesis by (simp add: run)
  next
    case True
    with assms(2) obtain MBBs where
      t: "traverse_MF X ?P (Blocks MF) False = Inr (Changed, MBBs)"
      and m: "MF' = MF\<lparr>Blocks := MBBs\<rparr>"
      by (auto simp: run split: sum.splits prod.splits)
    from traverse_MF_again [OF inv t]
    have "traverse_MF X ?P MBBs False = Inr (False, MBBs)" .
    with True m show ?thesis by (simp add: run)
  qed
  have 2: "\<not> isEVEX X MI' \<and> CompressEvexToVexImpl X ?P MI' = Inr (False, MI')"
    if "CompressEvexToVexImpl X ?P MI = Inr (True, MI')" for MI MI'
    using CompressEvexToVexImpl_again [OF inv that] by blast
  from 1 2 show ?thesis by blast
qed

text \<open>
  A function with two rewritten and two untouched instructions; the example tables hold
  VEX encoded short forms only.
\<close>

theorem second_run_changes_nothing_witness:
  "short_forms_not_EVEX X86_example (getInstrInfo MF_example) \<and>
   runOnMachineFunction X86_example P_example MF_example = Inr (True, MF_compressed_example) \<and>
   runOnMachineFunction X86_example P_example MF_compressed_example =
     Inr (False, MF_compressed_example)"
proof -
  have s: "short_forms_not_EVEX X86_example (getInstrInfo MF_example)"
    by (simp add: short_forms_not_EVEX_def example_defs)
  have r: "runOnMachineFunction X86_example P_example MF_example =
           Inr (True, MF_compressed_example)"
    by (simp add: example_defs runOnMachineFunction_def CompressEvexToVexImpl_def
          performCustomAdjustments_def find_NewOpc_def usesExtendedRegister_def
          getLastExplicitOperand_def getImm_def Let_def)
  from second_run_changes_nothing [OF s, of TII_example True MF_compressed_example] r
  have "runOnMachineFunction X86_example P_example MF_compressed_example =
          Inr (False, MF_compressed_example)"
    by (simp add: P_example_def)
  with s r show ?thesis by simp
qed

text \<open>
  Claim C3. The two width bits alone decide the table. With \<open>EVEX_L2\<close> set, be
  \<open>VEX_L\<close> clear (W512) or set as well, the instruction is never rewritten, whatever
  the tables hold. With both bits clear (W128) it is the 128 table that is searched: a
  hit there with a short form other than 0 is what an instruction that passes the other
  checks is rewritten with, every rewrite carries the descriptor of the 128 table's
  entry, a miss there ends the attempt, and the 256 table is not read (replacing it by
  any other changes nothing). With only \<open>VEX_L\<close> set (W256) it is the other way round.
\<close>

theorem width_class_decides_table:
  "(TSFlag_set MI (EVEX_L2 X) \<and> \<not> TSFlag_set MI (VEX_L X) \<longrightarrow>
      (\<forall>P. CompressEvexToVexImpl X P MI = Inr (False, MI))) \<and>
   (TSFlag_set MI (EVEX_L2 X) \<and> TSFlag_set MI (VEX_L X) \<longrightarrow>
      (\<forall>P. CompressEvexToVexImpl X P MI = Inr (False, MI))) \<and>
   (\<not> TSFlag_set MI (EVEX_L2 X) \<and> \<not> TSFlag_set MI (VEX_L X) \<longrightarrow>
      (\<forall>T. CompressEvexToVexImpl X (P\<lparr>EvexToVex256Table := T\<rparr>) MI =
           CompressEvexToVexImpl X P MI) \<and>
      (EvexToVex128Table P (getOpcode MI) = None \<longrightarrow>
         CompressEvexToVexImpl X P MI = Inr (False, MI)) \<and>
      (\<forall>v MI''. isEVEX X MI \<and> \<not> TSFlag_set MI (EVEX_K X) \<and> \<not> TSFlag_set MI (EVEX_B X) \<and>
         EvexToVex128Table P (getOpcode MI) = Some v \<and> v \<noteq> 0 \<and>
         usesExtendedRegister X MI = Inr False \<and>
         performCustomAdjustments X MI (ucast v) = Inr (True, MI'') \<longrightarrow>
         CompressEvexToVexImpl X P MI = Inr (True, commit X P MI'' (ucast v))) \<and>
      (\<forall>MI'. CompressEvexToVexImpl X P MI = Inr (True, MI') \<longrightarrow>
         (\<exists>v. EvexToVex128Table P (getOpcode MI) = Some v \<and> v \<noteq> 0 \<and>
              MCID MI' = TII P (ucast v)))) \<and>
   (\<not> TSFlag_set MI (EVEX_L2 X) \<and> TSFlag_set MI (VEX_L X) \<longrightarrow>
      (\<forall>T. CompressEvexToVexImpl X (P\<lparr>EvexToVex128Table := T\<rparr>) MI =
           CompressEvexToVexImpl X P MI) \<and>
      (EvexToVex256Table P (getOpcode MI) = None \<longrightarrow>
         CompressEvexToVexImpl X P MI = Inr (False, MI)) \<and>
      (\<forall>v MI''. isEVEX X MI \<and> \<not> TSFlag_set MI (EVEX_K X) \<and> \<not> TSFlag_set MI (EVEX_B X) \<and>
         EvexToVex256Table P (getOpcode MI) = Some v \<and> v \<noteq> 0 \<and>
         usesExtendedRegister X MI = Inr False \<and>
         performCustomAdjustments X MI (ucast v) = Inr (True, MI'') \<longrightarrow>
         CompressEvexToVexImpl X P MI = Inr (True, commit X P MI'' (ucast v))) \<and>
      (\<forall>MI'. CompressEvexToVexImpl X P MI = Inr (True, MI') \<longrightarrow>
         (\<exists>v. EvexToVex256Table P (getOpcode MI) = Some v \<and> v \<noteq> 0 \<and>
              MCID MI' = TII P (ucast v))))"
proof -
  have l2: "CompressEvexToVexImpl X Q MI = Inr (False, MI)"
    if "TSFlag_set MI (EVEX_L2 X)" for Q
    using that by (simp add: CompressEvexToVexImpl_def TSFlag_set_def Let_def)
  have w128: "CompressEvexToVexImpl X (P\<lparr>EvexToVex256Table := T\<rparr>) MI =
              CompressEvexToVexImpl X P MI"
    if "\<not> TSFlag_set MI (VEX_L X)" for T
    using that
    by (simp add: CompressEvexToVexImpl_def TSFlag_set_def Let_def
          cong: sum.case_cong bool.case_cong prod.case_cong)
  have w256: "CompressEvexToVexImpl X (P\<lparr>EvexToVex128Table := T\<rparr>) MI =
              CompressEvexToVexImpl X P MI"
    if "\<not> TSFlag_set MI (EVEX_L2 X)" "TSFlag_set MI (VEX_L X)" for T
    using that
    by (simp add: CompressEvexToVexImpl_def TSFlag_set_def Let_def
          cong: sum.case_cong bool.case_cong prod.case_cong)
  have m128: "CompressEvexToVexImpl X P MI = Inr (False, MI)"
    if "\<not> TSFlag_set MI (VEX_L X)" "EvexToVex128Table P (getOpcode MI) = None"
    using that
    by (simp add: CompressEvexToVexImpl_def TSFlag_set_def Let_def find_NewOpc_None)
  have m256: "CompressEvexToVexImpl X P MI = Inr (False, MI)"
    if "\<not> TSFlag_set MI (EVEX_L2 X)" "TSFlag_set MI (VEX_L X)"
       "EvexToVex256Table P (getOpcode MI) = None"
    using that
    by (simp add: CompressEvexToVexImpl_def TSFlag_set_def Let_def find_NewOpc_None)
  have t128: "table_entry X P MI = EvexToVex128Table P (getOpcode MI)"
    if "\<not> TSFlag_set MI (EVEX_L2 X)" "\<not> TSFlag_set MI (VEX_L X)"
    using that by (simp add: table_entry_def)
  have t256: "table_entry X P MI = EvexToVex256Table P (getOpcode MI)"
    if "\<not> TSFlag_set MI (EVEX_L2 X)" "TSFlag_set MI (VEX_L X)"
    using that by (simp add: table_entry_def)
  have h128: "CompressEvexToVexImpl X P MI = Inr (True, commit X P MI'' (ucast v))"
    if "\<not> TSFlag_set MI (EVEX_L2 X)" "\<not> TSFlag_set MI (VEX_L X)"
      "isEVEX X MI \<and> \<not> TSFlag_set MI (EVEX_K X) \<and> \<not> TSFlag_set MI (EVEX_B X) \<and>
         EvexToVex128Table P (getOpcode MI) = Some v \<and> v \<noteq> 0 \<and>
         usesExtendedRegister X MI = Inr False \<and>
         performCustomAdjustments X MI (ucast v) = Inr (True, MI'')" for v MI''
    using that t128 by (intro own_partition_hit) simp_all
  have h256: "CompressEvexToVexImpl X P MI = Inr (True, commit X P MI'' (ucast v))"
    if "\<not> TSFlag_set MI (EVEX_L2 X)" "TSFlag_set MI (VEX_L X)"
      "isEVEX X MI \<and> \<not> TSFlag_set MI (EVEX_K X) \<and> \<not> TSFlag_set MI (EVEX_B X) \<and>
         EvexToVex256Table P (getOpcode MI) = Some v \<and> v \<noteq> 0 \<and>
         usesExtendedRegister X MI = Inr False \<and>
         performCustomAdjustments X MI (ucast v) = Inr (True, MI'')" for v MI''
    using that t256 by (intro own_partition_hit) simp_all
  have u128: "\<exists>v. EvexToVex128Table P (getOpcode MI) = Some v \<and> v \<noteq> 0 \<and>
                MCID MI' = TII P (ucast v)"
    if "\<not> TSFlag_set MI (EVEX_L2 X)" "\<not> TSFlag_set MI (VEX_L X)"
      "CompressEvexToVexImpl X P MI = Inr (True, MI')" for MI'
    using rewrite_uses_own_partition [OF that(3)] t128 [OF that(1,2)] by simp
  have u256: "\<exists>v. EvexToVex256Table P (getOpcode MI) = Some v \<and> v \<noteq> 0 \<and>
                MCID MI' = TII P (ucast v)"
    if "\<not> TSFlag_set MI (EVEX_L2 X)" "TSFlag_set MI (VEX_L X)"
      "CompressEvexToVexImpl X P MI = Inr (True, MI')" for MI'
    using rewrite_uses_own_partition [OF that(3)] t256 [OF that(1,2)] by simp
  show ?thesis
  proof (intro conjI impI allI)
    show "CompressEvexToVexImpl X Q MI = Inr (False, MI)"
      if "TSFlag_set MI (EVEX_L2 X) \<and> \<not> TSFlag_set MI (VEX_L X)" for Q
      using that l2 by blast
    show "CompressEvexToVexImpl X Q MI = Inr (False, MI)"
      if "TSFlag_set MI (EVEX_L2 X) \<and> TSFlag_set MI (VEX_L X)" for Q
      using that l2 by blast
    show "CompressEvexToVexImpl X (P\<lparr>EvexToVex256Table := T\<rparr>) MI =
          CompressEvexToVexImpl X P MI"
      if "\<not> TSFlag_set MI (EVEX_L2 X) \<and> \<not> TSFlag_set MI (VEX_L X)" for T
      using that w128 by blast
    show "CompressEvexToVexImpl X P MI = Inr (False, MI)"
      if "\<not> TSFlag_set MI (EVEX_L2 X) \<and> \<not> TSFlag_set MI (VEX_L X)"
        "EvexToVex128Table P (getOpcode MI) = None"
      using that m128 by blast
    show "CompressEvexToVexImpl X P MI = Inr (True, commit X P MI'' (ucast v))"
      if "\<not> TSFlag_set MI (EVEX_L2 X) \<and> \<not> TSFlag_set MI (VEX_L X)"
        "isEVEX X MI \<and> \<not> TSFlag_set MI (EVEX_K X) \<and> \<not> TSFlag_set MI (EVEX_B X) \<and>
         EvexToVex128Table P (getOpcode MI) = Some v \<and> v \<noteq> 0 \<and>
         usesExtendedRegister X MI = Inr False \<and>
         performCustomAdjustments X MI (ucast v) = Inr (True, MI'')" for v MI''
      using that h128 [of v MI''] by blast
    show "\<exists>v. EvexToVex128Table P (getOpcode MI) = Some v \<and> v \<noteq> 0 \<and>
                MCID MI' = TII P (ucast v)"
      if "\<not> TSFlag_set MI (EVEX_L2 X) \<and> \<not> TSFlag_set MI (VEX_L X)"
        "CompressEvexToVexImpl X P MI = Inr (True, MI')" for MI'
      using that u128 [of MI'] by blast
    show "CompressEvexToVexImpl X (P\<lparr>EvexToVex128Table := T\<rparr>) MI =
          CompressEvexToVexImpl X P MI"
      if "\<not> TSFlag_set MI (EVEX_L2 X) \<and> TSFlag_set MI (VEX_L X)" for T
      using that w256 by blast
    show "CompressEvexToVexImpl X P MI = Inr (False, MI)"
      if "\<not> TSFlag_set MI (EVEX_L2 X) \<and> TSFlag_set MI (VEX_L X)"
        "EvexToVex256Table P (getOpcode MI) = None"
      using that m256 by blast
    show "CompressEvexToVexImpl X P MI = Inr (True, commit X P MI'' (ucast v))"
      if "\<not> TSFlag_set MI (EVEX_L2 X) \<and> TSFlag_set MI (VEX_L X)"
        "isEVEX X MI \<and> \<not> TSFlag_set MI (EVEX_K X) \<and> \<not> TSFlag_set MI (EVEX_B X) \<and>
         EvexToVex256Table P (getOpcode MI) = Some v \<and> v \<noteq> 0 \<and>
         usesExtendedRegister X MI = Inr False \<and>
         performCustomAdjustments X MI (ucast v) = Inr (True, MI'')" for v MI''
      using that h256 [of v MI''] by blast
    show "\<exists>v. EvexToVex256Table P (getOpcode MI) = Some v \<and> v \<noteq> 0 \<and>
                MCID MI' = TII P (ucast v)"
      if "\<not> TSFlag_set MI (EVEX_L2 X) \<and> TSFlag_set MI (VEX_L X)"
        "CompressEvexToVexImpl X P MI = Inr (True, MI')" for MI'
      using that u256 [of MI'] by blast
  qed
qed

text \<open>
  One instruction for each combination of the width bits, each with an entry for its
  opcode in a table that its bits do not select; and a W128 and a W256 instruction
  whose opcode has a different entry in each table, rewritten with the entry of its own.
\<close>

theorem width_class_decides_table_witness:
  "(TSFlag_set MI_W512_example (EVEX_L2 X86_example) \<and>
    \<not> TSFlag_set MI_W512_example (VEX_L X86_example) \<and>
    EvexToVex128Table P_example (getOpcode MI_W512_example) = Some 2001 \<and>
    CompressEvexToVexImpl X86_example P_example MI_W512_example = Inr (False, MI_W512_example)) \<and>
   (TSFlag_set MI_both_width_bits_example (EVEX_L2 X86_example) \<and>
    TSFlag_set MI_both_width_bits_example (VEX_L X86_example) \<and>
    EvexToVex256Table P_example (getOpcode MI_both_width_bits_example) = Some 2011 \<and>
    CompressEvexToVexImpl X86_example P_example MI_both_width_bits_example =
      Inr (False, MI_both_width_bits_example)) \<and>
   (\<not> TSFlag_set MI_W128_example (EVEX_L2 X86_example) \<and>
    \<not> TSFlag_set MI_W128_example (VEX_L X86_example) \<and>
    EvexToVex128Table P_example (getOpcode MI_W128_example) = None \<and>
    EvexToVex256Table P_example (getOpcode MI_W128_example) = Some 2011 \<and>
    CompressEvexToVexImpl X86_example P_example MI_W128_example = Inr (False, MI_W128_example) \<and>
    CompressEvexToVexImpl X86_example (P_example\<lparr>EvexToVex256Table := Map.empty\<rparr>)
      MI_W128_example = CompressEvexToVexImpl X86_example P_example MI_W128_example) \<and>
   (\<not> TSFlag_set MI_W256_example (EVEX_L2 X86_example) \<and>
    TSFlag_set MI_W256_example (VEX_L X86_example) \<and>
    EvexToVex256Table P_example (getOpcode MI_W256_example) = None \<and>
    EvexToVex128Table P_example (getOpcode MI_W256_example) = Some 2001 \<and>
    CompressEvexToVexImpl X86_example P_example MI_W256_example = Inr (False, MI_W256_example) \<and>
    CompressEvexToVexImpl X86_example (P_example\<lparr>EvexToVex128Table := Map.empty\<rparr>)
      MI_W256_example = CompressEvexToVexImpl X86_example P_example MI_W256_example) \<and>
   (\<not> TSFlag_set MI_VALIGNQ_example (EVEX_L2 X86_example) \<and>
    \<not> TSFlag_set MI_VALIGNQ_example (VEX_L X86_example) \<and>
    EvexToVex128Table P_both_example (getOpcode MI_VALIGNQ_example) = Some 2001 \<and>
    EvexToVex256Table P_both_example (getOpcode MI_VALIGNQ_example) = Some 2100 \<and>
    CompressEvexToVexImpl X86_example P_both_example MI_VALIGNQ_example =
      Inr (True, commit X86_example P_both_example
                   (MI_example 1003
                      [MO_Register 144, MO_Register 145, MO_Register 146, MO_Immediate 24])
                   2001)) \<and>
   (\<not> TSFlag_set (MI_VSHUF_example 2) (EVEX_L2 X86_example) \<and>
    TSFlag_set (MI_VSHUF_example 2) (VEX_L X86_example) \<and>
    EvexToVex256Table P_both_example (getOpcode (MI_VSHUF_example 2)) = Some 2011 \<and>
    EvexToVex128Table P_both_example (getOpcode (MI_VSHUF_example 2)) = Some 2100 \<and>
    CompressEvexToVexImpl X86_example P_both_example (MI_VSHUF_example 2) =
      Inr (True, commit X86_example P_both_example (MI_VSHUF_example 0x30) 2011))"
proof -
  have a: "TSFlag_set MI_W512_example (EVEX_L2 X86_example) \<and>
           \<not> TSFlag_set MI_W512_example (VEX_L X86_example) \<and>
           EvexToVex128Table P_example (getOpcode MI_W512_example) = Some 2001"
    by (simp add: example_defs)
  have b: "TSFlag_set MI_both_width_bits_example (EVEX_L2 X86_example) \<and>
           TSFlag_set MI_both_width_bits_example (VEX_L X86_example) \<and>
           EvexToVex256Table P_example (getOpcode MI_both_width_bits_example) = Some 2011"
    by (simp add: example_defs)
  have c: "\<not> TSFlag_set MI_W128_example (EVEX_L2 X86_example) \<and>
           \<not> TSFlag_set MI_W128_example (VEX_L X86_example) \<and>
           EvexToVex128Table P_example (getOpcode MI_W128_example) = None \<and>
           EvexToVex256Table P_example (getOpcode MI_W128_example) = Some 2011"
    by (simp add: example_defs)
  have d: "\<not> TSFlag_set MI_W256_example (EVEX_L2 X86_example) \<and>
           TSFlag_set MI_W256_example (VEX_L X86_example) \<and>
           EvexToVex256Table P_example (getOpcode MI_W256_example) = None \<and>
           EvexToVex128Table P_example (getOpcode MI_W256_example) = Some 2001"
    by (simp add: example_defs)
  from a have a0: "TSFlag_set MI_W512_example (EVEX_L2 X86_example) \<and>
                   \<not> TSFlag_set MI_W512_example (VEX_L X86_example)"
    by simp
  from b have b0: "TSFlag_set MI_both_width_bits_example (EVEX_L2 X86_example) \<and>
                   TSFlag_set MI_both_width_bits_example (VEX_L X86_example)"
    by simp
  from c have c0: "\<not> TSFlag_set MI_W128_example (EVEX_L2 X86_example) \<and>
                   \<not> TSFlag_set MI_W128_example (VEX_L X86_example)"
    and c1: "EvexToVex128Table P_example (getOpcode MI_W128_example) = None"
    by simp_all
  from d have d0: "\<not> TSFlag_set MI_W256_example (EVEX_L2 X86_example) \<and>
                   TSFlag_set MI_W256_example (VEX_L X86_example)"
    and d1: "EvexToVex256Table P_example (getOpcode MI_W256_example) = None"
    by simp_all
  note 1 = width_class_decides_table [of MI_W512_example X86_example P_example,
      THEN conjunct1, THEN mp, OF a0, THEN spec, of P_example]
  note 2 = width_class_decides_table [of MI_both_width_bits_example X86_example P_example,
      THEN conjunct2, THEN conjunct1, THEN mp, OF b0, THEN spec, of P_example]
  note w = width_class_decides_table [of MI_W128_example X86_example P_example,
      THEN conjunct2, THEN conjunct2, THEN conjunct1, THEN mp, OF c0]
  note 3 = w [THEN conjunct2, THEN conjunct1, THEN mp, OF c1]
    w [THEN conjunct1, THEN spec, of Map.empty]
  note y = width_class_decides_table [of MI_W256_example X86_example P_example,
      THEN conjunct2, THEN conjunct2, THEN conjunct2, THEN mp, OF d0]
  note 4 = y [THEN conjunct2, THEN conjunct1, THEN mp, OF d1]
    y [THEN conjunct1, THEN spec, of Map.empty]
  let ?A = "MI_VALIGNQ_example"
  let ?A' = "MI_example 1003
               [MO_Register 144, MO_Register 145, MO_Register 146, MO_Immediate 24]"
  let ?S = "MI_VSHUF_example 2"
  have e: "\<not> TSFlag_set ?A (EVEX_L2 X86_example) \<and> \<not> TSFlag_set ?A (VEX_L X86_example)"
    by (simp add: example_defs)
  have e': "isEVEX X86_example ?A \<and> \<not> TSFlag_set ?A (EVEX_K X86_example) \<and>
            \<not> TSFlag_set ?A (EVEX_B X86_example) \<and>
            EvexToVex128Table P_both_example (getOpcode ?A) = Some 2001 \<and>
            (2001 :: 16 word) \<noteq> 0 \<and>
            usesExtendedRegister X86_example ?A = Inr False \<and>
            performCustomAdjustments X86_example ?A (ucast (2001 :: 16 word)) = Inr (True, ?A')"
    by (simp add: example_defs impl_defs)
  have e'': "EvexToVex256Table P_both_example (getOpcode ?A) = Some 2100"
    by (simp add: example_defs)
  have f: "\<not> TSFlag_set ?S (EVEX_L2 X86_example) \<and> TSFlag_set ?S (VEX_L X86_example)"
    by (simp add: example_defs)
  have f': "isEVEX X86_example ?S \<and> \<not> TSFlag_set ?S (EVEX_K X86_example) \<and>
            \<not> TSFlag_set ?S (EVEX_B X86_example) \<and>
            EvexToVex256Table P_both_example (getOpcode ?S) = Some 2011 \<and>
            (2011 :: 16 word) \<noteq> 0 \<and>
            usesExtendedRegister X86_example ?S = Inr False \<and>
            performCustomAdjustments X86_example ?S (ucast (2011 :: 16 word)) =
              Inr (True, MI_VSHUF_example 0x30)"
    by (simp add: example_defs impl_defs)
  have f'': "EvexToVex128Table P_both_example (getOpcode ?S) = Some 2100"
    by (simp add: example_defs)
  note 5 = width_class_decides_table [of ?A X86_example P_both_example,
      THEN conjunct2, THEN conjunct2, THEN conjunct1, THEN mp, OF e,
      THEN conjunct2, THEN conjunct2, THEN conjunct1, THEN spec, THEN spec, THEN mp, OF e']
  note 6 = width_class_decides_table [of ?S X86_example P_both_example,
      THEN conjunct2, THEN conjunct2, THEN conjunct2, THEN mp, OF f,
      THEN conjunct2, THEN conjunct2, THEN conjunct1, THEN spec, THEN spec, THEN mp, OF f']
  have u: "(ucast (2001 :: 16 word) :: 32 word) = 2001"
    "(ucast (2011 :: 16 word) :: 32 word) = 2011"
    by simp_all
  from 5 6 e e' e'' f f' f'' have 7:
    "(\<not> TSFlag_set ?A (EVEX_L2 X86_example) \<and> \<not> TSFlag_set ?A (VEX_L X86_example) \<and>
      EvexToVex128Table P_both_example (getOpcode ?A) = Some 2001 \<and>
      EvexToVex256Table P_both_example (getOpcode ?A) = Some 2100 \<and>
      CompressEvexToVexImpl X86_example P_both_example ?A =
        Inr (True, commit X86_example P_both_example ?A' 2001)) \<and>
     (\<not> TSFlag_set ?S (EVEX_L2 X86_example) \<and> TSFlag_set ?S (VEX_L X86_example) \<and>
      EvexToVex256Table P_both_example (getOpcode ?S) = Some 2011 \<and>
      EvexToVex128Table P_both_example (getOpcode ?S) = Some 2100 \<and>
      CompressEvexToVexImpl X86_example P_both_example ?S =
        Inr (True, commit X86_example P_both_example (MI_VSHUF_example 0x30) 2011))"
    by (simp only: u simp_thms)
  have 8: "(TSFlag_set MI_W512_example (EVEX_L2 X86_example) \<and>
    \<not> TSFlag_set MI_W512_example (VEX_L X86_example) \<and>
    EvexToVex128Table P_example (getOpcode MI_W512_example) = Some 2001 \<and>
    CompressEvexToVexImpl X86_example P_example MI_W512_example = Inr (False, MI_W512_example)) \<and>
   (TSFlag_set MI_both_width_bits_example (EVEX_L2 X86_example) \<and>
    TSFlag_set MI_both_width_bits_example (VEX_L X86_example) \<and>
    EvexToVex256Table P_example (getOpcode MI_both_width_bits_example) = Some 2011 \<and>
    CompressEvexToVexImpl X86_example P_example MI_both_width_bits_example =
      Inr (False, MI_both_width_bits_example)) \<and>
   (\<not> TSFlag_set MI_W128_example (EVEX_L2 X86_example) \<and>
    \<not> TSFlag_set MI_W128_example (VEX_L X86_example) \<and>
    EvexToVex128Table P_example (getOpcode MI_W128_example) = None \<and>
    EvexToVex256Table P_example (getOpcode MI_W128_example) = Some 2011 \<and>
    CompressEvexToVexImpl X86_example P_example MI_W128_example = Inr (False, MI_W128_example) \<and>
    CompressEvexToVexImpl X86_example (P_example\<lparr>EvexToVex256Table := Map.empty\<rparr>)
      MI_W128_example = CompressEvexToVexImpl X86_example P_example MI_W128_example) \<and>
   (\<not> TSFlag_set MI_W256_example (EVEX_L2 X86_example) \<and>
    TSFlag_set MI_W256_example (VEX_L X86_example) \<and>
    EvexToVex256Table P_example (getOpcode MI_W256_example) = None \<and>
    EvexToVex128Table P_example (getOpcode MI_W256_example) = Some 2001 \<and>
    CompressEvexToVexImpl X86_example P_example MI_W256_example = Inr (False, MI_W256_example) \<and>
    CompressEvexToVexImpl X86_example (P_example\<lparr>EvexToVex128Table := Map.empty\<rparr>)
      MI_W256_example = CompressEvexToVexImpl X86_example P_example MI_W256_example)"
    using a b c d 1 2 3 4 by simp
  from 8 7 show ?thesis by (intro conjI) (elim conjE, assumption)+
qed

text \<open>
  Claim C4. An instruction whose descriptor has the mask flag or the broadcast flag set
  is never rewritten: \<open>CompressEvexToVexImpl\<close> returns false and leaves it as it is,
  whatever its other fields are and whatever the tables hold for its opcode.
\<close>

theorem mask_or_broadcast_never_rewritten:
  "TSFlag_set MI (EVEX_K X) \<or> TSFlag_set MI (EVEX_B X) \<Longrightarrow>
   CompressEvexToVexImpl X P MI = Inr (False, MI)"
  by (auto simp: CompressEvexToVexImpl_def TSFlag_set_def TSFlags_mask_or Let_def)

text \<open>
  An instruction whose opcode has an entry in the 128 table, once with the mask flag and
  once with the broadcast flag.
\<close>

theorem mask_or_broadcast_never_rewritten_witness:
  "TSFlag_set MI_masked_example (EVEX_K X86_example) \<and>
   table_entry X86_example P_example MI_masked_example = Some 2001 \<and>
   CompressEvexToVexImpl X86_example P_example MI_masked_example =
     Inr (False, MI_masked_example) \<and>
   TSFlag_set MI_broadcast_example (EVEX_B X86_example) \<and>
   table_entry X86_example P_example MI_broadcast_example = Some 2001 \<and>
   CompressEvexToVexImpl X86_example P_example MI_broadcast_example =
     Inr (False, MI_broadcast_example)"
proof -
  have k: "TSFlag_set MI_masked_example (EVEX_K X86_example)" by (simp add: example_defs)
  have b: "TSFlag_set MI_broadcast_example (EVEX_B X86_example)" by (simp add: example_defs)
  have t: "table_entry X86_example P_example MI_masked_example = Some 2001"
    "table_entry X86_example P_example MI_broadcast_example = Some 2001"
    by (simp_all add: example_defs)
  from k have "CompressEvexToVexImpl X86_example P_example MI_masked_example =
                 Inr (False, MI_masked_example)"
    by (intro mask_or_broadcast_never_rewritten) simp
  moreover from b have "CompressEvexToVexImpl X86_example P_example MI_broadcast_example =
                          Inr (False, MI_broadcast_example)"
    by (intro mask_or_broadcast_never_rewritten) simp
  ultimately show ?thesis using k b t by simp
qed

text \<open>
  Claim C5 (amended). Let an instruction reach the register check and let one of its
  explicit register operands name an XMM or YMM register with an index of 16 to 31.
  Unless a ZMM register comes first, and so in particular if no ZMM register is named,
  \<open>CompressEvexToVexImpl\<close> returns false and the instruction is unchanged. If a ZMM
  register comes first, the assertion of \<open>usesExtendedRegister\<close> fails. In no case is
  the instruction rewritten.
\<close>

theorem high_register_blocks_rewrite:
  assumes "reaches_register_check X P MI NewOpc" and "names_hi_register X MI"
  shows "(\<not> ZMM_register_first X MI \<longrightarrow> CompressEvexToVexImpl X P MI = Inr (False, MI)) \<and>
         (\<not> names_ZMM_register X MI \<longrightarrow> CompressEvexToVexImpl X P MI = Inr (False, MI)) \<and>
         (ZMM_register_first X MI \<longrightarrow>
            CompressEvexToVexImpl X P MI = Inl ZMM_in_EVEX2VEX_tables) \<and>
         (\<forall>MI'. CompressEvexToVexImpl X P MI \<noteq> Inr (True, MI'))"
proof -
  note impl = CompressEvexToVexImpl_reaching [OF assms(1)]
  show ?thesis
  proof (cases "usesExtendedRegister X MI")
    case (Inl f)
    with usesExtendedRegister_ZMM_first [of X MI f]
    have "f = ZMM_in_EVEX2VEX_tables" "ZMM_register_first X MI" by simp_all
    with Inl ZMM_register_first_names [of X MI] show ?thesis by (simp add: impl)
  next
    case (Inr u)
    with usesExtendedRegister_hi [OF assms(2)] have "u" by auto
    moreover from Inr usesExtendedRegister_ZMM_first [of X MI ZMM_in_EVEX2VEX_tables]
    have "\<not> ZMM_register_first X MI" by simp
    ultimately show ?thesis using Inr by (simp add: impl)
  qed
qed

text \<open>
  XMM20 with no ZMM register, and ZMM2 ahead of XMM20.
\<close>

theorem high_register_blocks_rewrite_witness:
  "reaches_register_check X86_example P_example MI_hi_example 2021 \<and>
   names_hi_register X86_example MI_hi_example \<and>
   \<not> ZMM_register_first X86_example MI_hi_example \<and>
   CompressEvexToVexImpl X86_example P_example MI_hi_example = Inr (False, MI_hi_example) \<and>
   reaches_register_check X86_example P_example MI_ZMM_hi_example 2021 \<and>
   names_hi_register X86_example MI_ZMM_hi_example \<and>
   ZMM_register_first X86_example MI_ZMM_hi_example \<and>
   CompressEvexToVexImpl X86_example P_example MI_ZMM_hi_example = Inl ZMM_in_EVEX2VEX_tables"
proof -
  have r: "reaches_register_check X86_example P_example MI_hi_example 2021"
    by (simp add: example_defs)
  have h: "names_hi_register X86_example MI_hi_example" by (simp add: example_defs)
  have z: "\<not> ZMM_register_first X86_example MI_hi_example" by (simp add: example_defs)
  have r': "reaches_register_check X86_example P_example MI_ZMM_hi_example 2021"
    by (simp add: example_defs)
  have h': "names_hi_register X86_example MI_ZMM_hi_example" by (simp add: example_defs)
  have z': "ZMM_register_first X86_example MI_ZMM_hi_example" by (simp add: example_defs)
  from high_register_blocks_rewrite [OF r h] z
  have 1: "CompressEvexToVexImpl X86_example P_example MI_hi_example = Inr (False, MI_hi_example)"
    by blast
  from high_register_blocks_rewrite [OF r' h'] z'
  have 2: "CompressEvexToVexImpl X86_example P_example MI_ZMM_hi_example =
             Inl ZMM_in_EVEX2VEX_tables"
    by blast
  from r h z r' h' z' 1 2 show ?thesis by simp
qed

text \<open>
  The conclusion as the claim has it, without the condition on ZMM registers, fails: the
  instruction has an entry in the 128 table and names XMM20, but ZMM2 comes first and
  the assertion ends the function, which returns nothing.
\<close>

theorem ZMM_before_high_register_counterexample:
  "reaches_register_check X86_example P_example MI_ZMM_hi_example 2021 \<and>
   names_hi_register X86_example MI_ZMM_hi_example \<and>
   CompressEvexToVexImpl X86_example P_example MI_ZMM_hi_example = Inl ZMM_in_EVEX2VEX_tables \<and>
   CompressEvexToVexImpl X86_example P_example MI_ZMM_hi_example \<noteq>
     Inr (False, MI_ZMM_hi_example)"
  by (simp add: example_defs impl_defs)

text \<open>
  Claim C6. Let an instruction come to \<open>performCustomAdjustments\<close> (it reaches the
  register check with the short form \<open>NewOpc\<close>, and \<open>usesExtendedRegister\<close> returns
  false), let its opcode be one of the \<open>VRNDSCALE\<close> labels and its last explicit operand
  the immediate \<open>v\<close>. If one of the bits 4 to 7 of \<open>v\<close> is set, the function returns
  false and the instruction, opcode and immediate, is unchanged. If \<open>v\<close> is at most 15,
  the instruction is rewritten: it gets the descriptor of \<open>NewOpc\<close> (and so the opcode
  \<open>NewOpc\<close>, where \<open>TII\<close> describes each opcode under its own number) and the flag,
  and its operands, the immediate among them, are unchanged.
\<close>

theorem VRNDSCALE_range_validation:
  assumes "reaches_register_check X P MI NewOpc"
    and "usesExtendedRegister X MI = Inr False"
    and "selects_VRNDSCALE X (getOpcode MI)"
    and "last_explicit_is_Imm MI v"
  shows "(v AND 0xF0 \<noteq> 0 \<longrightarrow> CompressEvexToVexImpl X P MI = Inr (False, MI)) \<and>
         (v \<le> 0xF \<longrightarrow>
            CompressEvexToVexImpl X P MI = Inr (True, commit X P MI NewOpc) \<and>
            MCID (commit X P MI NewOpc) = TII P NewOpc \<and>
            (Opcode (TII P NewOpc) = NewOpc \<longrightarrow> getOpcode (commit X P MI NewOpc) = NewOpc) \<and>
            explicit_operands (commit X P MI NewOpc) = explicit_operands MI \<and>
            last_explicit_is_Imm (commit X P MI NewOpc) v)"
proof (intro conjI impI)
  note p = performCustomAdjustments_VRNDSCALE [OF assms(3,4), of NewOpc]
  note i = CompressEvexToVexImpl_reaching [OF assms(1)]
  show "CompressEvexToVexImpl X P MI = Inr (False, MI)" if "v AND 0xF0 \<noteq> 0"
    using and_hi_nibble [OF that] p assms(2) by (simp add: i)
  show "CompressEvexToVexImpl X P MI = Inr (True, commit X P MI NewOpc)" if "v \<le> 0xF"
    using and_lo_nibble [OF that] p assms(2) by (simp add: i)
  show "MCID (commit X P MI NewOpc) = TII P NewOpc"
    by (simp add: commit_def setAsmPrinterFlag_def setDesc_def)
  show "getOpcode (commit X P MI NewOpc) = NewOpc" if "Opcode (TII P NewOpc) = NewOpc"
    using that by (simp add: commit_def setAsmPrinterFlag_def setDesc_def getOpcode_def)
  show "explicit_operands (commit X P MI NewOpc) = explicit_operands MI"
    by (simp add: commit_def setAsmPrinterFlag_def setDesc_def)
  show "last_explicit_is_Imm (commit X P MI NewOpc) v"
    using assms(4)
    by (simp add: last_explicit_is_Imm_def commit_def setAsmPrinterFlag_def setDesc_def)
qed

text \<open>
  The immediates \<open>0x17\<close> and \<open>0x07\<close>.
\<close>

theorem VRNDSCALE_range_validation_witness:
  "reaches_register_check X86_example P_example (MI_VRNDSCALE_example 0x17) 2021 \<and>
   usesExtendedRegister X86_example (MI_VRNDSCALE_example 0x17) = Inr False \<and>
   selects_VRNDSCALE X86_example (getOpcode (MI_VRNDSCALE_example 0x17)) \<and>
   last_explicit_is_Imm (MI_VRNDSCALE_example 0x17) 0x17 \<and>
   CompressEvexToVexImpl X86_example P_example (MI_VRNDSCALE_example 0x17) =
     Inr (False, MI_VRNDSCALE_example 0x17) \<and>
   reaches_register_check X86_example P_example (MI_VRNDSCALE_example 0x07) 2021 \<and>
   usesExtendedRegister X86_example (MI_VRNDSCALE_example 0x07) = Inr False \<and>
   selects_VRNDSCALE X86_example (getOpcode (MI_VRNDSCALE_example 0x07)) \<and>
   last_explicit_is_Imm (MI_VRNDSCALE_example 0x07) 0x07 \<and>
   CompressEvexToVexImpl X86_example P_example (MI_VRNDSCALE_example 0x07) =
     Inr (True, commit X86_example P_example (MI_VRNDSCALE_example 0x07) 2021) \<and>
   getOpcode (commit X86_example P_example (MI_VRNDSCALE_example 0x07) 2021) = 2021 \<and>
   last_explicit_is_Imm (commit X86_example P_example (MI_VRNDSCALE_example 0x07) 2021) 0x07"
proof -
  have r: "reaches_register_check X86_example P_example (MI_VRNDSCALE_example v) 2021" for v
    by (simp add: example_defs)
  have u: "usesExtendedRegister X86_example (MI_VRNDSCALE_example v) = Inr False" for v
    by (simp add: example_defs usesExtendedRegister_def)
  have s: "selects_VRNDSCALE X86_example (getOpcode (MI_VRNDSCALE_example v))" for v
    by (simp add: example_defs)
  have l: "last_explicit_is_Imm (MI_VRNDSCALE_example v) v" for v
    by (simp add: example_defs)
  have o: "Opcode (TII P_example 2021) = 2021" by (simp add: example_defs)
  have "CompressEvexToVexImpl X86_example P_example (MI_VRNDSCALE_example 0x17) =
          Inr (False, MI_VRNDSCALE_example 0x17)"
    using VRNDSCALE_range_validation [OF r u s l [of "0x17"]] by simp
  moreover have
    "CompressEvexToVexImpl X86_example P_example (MI_VRNDSCALE_example 0x07) =
       Inr (True, commit X86_example P_example (MI_VRNDSCALE_example 0x07) 2021) \<and>
     getOpcode (commit X86_example P_example (MI_VRNDSCALE_example 0x07) 2021) = 2021 \<and>
     last_explicit_is_Imm (commit X86_example P_example (MI_VRNDSCALE_example 0x07) 2021) 0x07"
    using VRNDSCALE_range_validation [OF r u s l [of "0x07"]] o by simp
  ultimately show ?thesis using r u s l by simp
qed

text \<open>
  Claim C7 (amended). Let the opcode be one of the \<open>VSHUF\<close> labels, \<open>NewOpc\<close> one
  of the four \<open>VPERM2\<close> opcodes that the function asserts, and the last explicit operand
  the immediate \<open>v\<close>. Then \<open>performCustomAdjustments\<close> returns true and leaves the
  immediate \<open>0x20 | ((v & 2) << 3) | (v & 1)\<close>; for \<open>v\<close> = 0, 1, 2, 3 that is
  \<open>0x20\<close>, \<open>0x21\<close>, \<open>0x30\<close>, \<open>0x31\<close>. An instruction that comes to the
  adjustment is rewritten with that immediate.
\<close>

theorem lane_select_remap_formula:
  assumes "selects_VSHUF X (getOpcode MI)"
    and "NewOpc \<in> X86_opc X ` {VPERM2F128rr, VPERM2I128rr, VPERM2F128rm, VPERM2I128rm}"
    and "last_explicit_is_Imm MI v"
  shows "performCustomAdjustments X MI NewOpc =
           Inr (True, setLastExplicitImm MI (lane_select_remap v)) \<and>
         last_explicit_is_Imm (setLastExplicitImm MI (lane_select_remap v)) (lane_select_remap v) \<and>
         (v = 0 \<longrightarrow> lane_select_remap v = 0x20) \<and>
         (v = 1 \<longrightarrow> lane_select_remap v = 0x21) \<and>
         (v = 2 \<longrightarrow> lane_select_remap v = 0x30) \<and>
         (v = 3 \<longrightarrow> lane_select_remap v = 0x31) \<and>
         (reaches_register_check X P MI NewOpc \<and> usesExtendedRegister X MI = Inr False \<longrightarrow>
            CompressEvexToVexImpl X P MI =
              Inr (True, commit X P (setLastExplicitImm MI (lane_select_remap v)) NewOpc))"
proof (intro conjI impI)
  show p: "performCustomAdjustments X MI NewOpc =
           Inr (True, setLastExplicitImm MI (lane_select_remap v))"
    unfolding lane_select_remap_def
    using assms by (rule performCustomAdjustments_VSHUF)
  from assms(3) have "explicit_operands MI \<noteq> []" by (simp add: last_explicit_is_Imm_def)
  then show "last_explicit_is_Imm (setLastExplicitImm MI (lane_select_remap v))
               (lane_select_remap v)"
    by (rule last_explicit_is_Imm_setLastExplicitImm)
  show "lane_select_remap v = 0x20" if "v = 0" using that by (simp add: lane_select_remap_def)
  show "lane_select_remap v = 0x21" if "v = 1" using that by (simp add: lane_select_remap_def)
  show "lane_select_remap v = 0x30" if "v = 2" using that by (simp add: lane_select_remap_def)
  show "lane_select_remap v = 0x31" if "v = 3" using that by (simp add: lane_select_remap_def)
  assume a: "reaches_register_check X P MI NewOpc \<and> usesExtendedRegister X MI = Inr False"
  then have r: "reaches_register_check X P MI NewOpc"
    and u: "usesExtendedRegister X MI = Inr False"
    by simp_all
  from p u show "CompressEvexToVexImpl X P MI =
              Inr (True, commit X P (setLastExplicitImm MI (lane_select_remap v)) NewOpc)"
    by (simp add: CompressEvexToVexImpl_reaching [OF r])
qed

text \<open>
  The immediate 3 becomes \<open>0x31\<close>.
\<close>

theorem lane_select_remap_formula_witness:
  "selects_VSHUF X86_example (getOpcode (MI_VSHUF_example 3)) \<and>
   last_explicit_is_Imm (MI_VSHUF_example 3) 3 \<and>
   reaches_register_check X86_example P_example (MI_VSHUF_example 3) 2011 \<and>
   usesExtendedRegister X86_example (MI_VSHUF_example 3) = Inr False \<and>
   lane_select_remap 3 = 0x31 \<and>
   CompressEvexToVexImpl X86_example P_example (MI_VSHUF_example 3) =
     Inr (True, commit X86_example P_example (MI_VSHUF_example 0x31) 2011)"
proof -
  have s: "selects_VSHUF X86_example (getOpcode (MI_VSHUF_example 3))" by (simp add: example_defs)
  have n: "(2011 :: 32 word) \<in>
           X86_opc X86_example ` {VPERM2F128rr, VPERM2I128rr, VPERM2F128rm, VPERM2I128rm}"
    by (simp add: example_defs)
  have l: "last_explicit_is_Imm (MI_VSHUF_example 3) 3" by (simp add: example_defs)
  have r: "reaches_register_check X86_example P_example (MI_VSHUF_example 3) 2011"
    by (simp add: example_defs)
  have u: "usesExtendedRegister X86_example (MI_VSHUF_example 3) = Inr False"
    by (simp add: example_defs usesExtendedRegister_def)
  have e: "setLastExplicitImm (MI_VSHUF_example 3) 0x31 = MI_VSHUF_example 0x31"
    by (simp add: example_defs)
  from lane_select_remap_formula [OF s n l, of P_example] r u
  have "lane_select_remap 3 = 0x31 \<and>
        CompressEvexToVexImpl X86_example P_example (MI_VSHUF_example 3) =
          Inr (True, commit X86_example P_example
                 (setLastExplicitImm (MI_VSHUF_example 3) (lane_select_remap 3)) 2011)"
    by simp
  with e s l r u show ?thesis by simp
qed

text \<open>
  The values as the claim lists them do not hold: the immediate 2 becomes \<open>0x30\<close>
  (bit 1 moves to bit 4), not \<open>0x28\<close>.
\<close>

theorem lane_select_remap_counterexample:
  "selects_VSHUF X86_example (getOpcode (MI_VSHUF_example 2)) \<and>
   last_explicit_is_Imm (MI_VSHUF_example 2) 2 \<and>
   performCustomAdjustments X86_example (MI_VSHUF_example 2) 2011 =
     Inr (True, MI_VSHUF_example 0x30) \<and>
   CompressEvexToVexImpl X86_example P_example (MI_VSHUF_example 2) =
     Inr (True, commit X86_example P_example (MI_VSHUF_example 0x30) 2011) \<and>
   last_explicit_is_Imm (commit X86_example P_example (MI_VSHUF_example 0x30) 2011) 0x30 \<and>
   \<not> last_explicit_is_Imm (commit X86_example P_example (MI_VSHUF_example 0x30) 2011) 0x28"
  by (simp add: example_defs CompressEvexToVexImpl_def performCustomAdjustments_def find_NewOpc_def
        usesExtendedRegister_def getLastExplicitOperand_def getImm_def Let_def)

text \<open>
  Claim C8. Let \<open>CompressEvexToVexImpl\<close> return true with the instruction \<open>MI'\<close>.
  Then \<open>MI'\<close> has the descriptor that \<open>TII\<close> gives for the short form \<open>NewOpc\<close> of
  the table (and the opcode \<open>NewOpc\<close>, where \<open>TII\<close> describes each opcode under its
  own number), its asm-printer flags are those of \<open>MI\<close> with \<open>AC_EVEX_2_VEX\<close> set,
  its implicit operands are those of \<open>MI\<close>, it has as many explicit operands, every
  explicit operand but the last is unchanged, and so is every operand that is not an
  immediate. If the explicit operands differ at all, the opcode of \<open>MI\<close> is one of
  the \<open>VALIGN\<close> or \<open>VSHUF\<close> labels and the last explicit operand is an immediate
  before and after.
\<close>

theorem rewrite_frame:
  assumes "CompressEvexToVexImpl X P MI = Inr (True, MI')"
  shows "\<exists>NewOpc.
           reaches_register_check X P MI NewOpc \<and>
           MCID MI' = TII P NewOpc \<and>
           (Opcode (TII P NewOpc) = NewOpc \<longrightarrow> getOpcode MI' = NewOpc) \<and>
           AsmPrinterFlags MI' = AsmPrinterFlags MI OR AC_EVEX_2_VEX X \<and>
           implicit_operands MI' = implicit_operands MI \<and>
           length (explicit_operands MI') = length (explicit_operands MI) \<and>
           (\<forall>i. i \<noteq> length (explicit_operands MI) - 1 \<longrightarrow>
                explicit_operands MI' ! i = explicit_operands MI ! i) \<and>
           (\<forall>i. (\<forall>v. explicit_operands MI ! i \<noteq> MO_Immediate v) \<longrightarrow>
                explicit_operands MI' ! i = explicit_operands MI ! i) \<and>
           (explicit_operands MI' \<noteq> explicit_operands MI \<longrightarrow>
              getOpcode MI \<in> VALIGN_labels X \<union> VSHUF_labels X \<and>
              (\<exists>v v'. last_explicit_is_Imm MI v \<and> last_explicit_is_Imm MI' v'))"
proof -
  from CompressEvexToVexImpl_True [OF assms] obtain NewOpc MI'' where
    r: "reaches_register_check X P MI NewOpc"
    and p: "performCustomAdjustments X MI NewOpc = Inr (True, MI'')"
    and m: "MI' = commit X P MI'' NewOpc"
    by blast
  from performCustomAdjustments_True [OF p]
  consider (same) "MI'' = MI"
    | (imm) v v' where "getOpcode MI \<in> VALIGN_labels X \<union> VSHUF_labels X"
        "last_explicit_is_Imm MI v" "MI'' = setLastExplicitImm MI v'"
    by blast
  then have "MCID MI' = TII P NewOpc \<and>
           (Opcode (TII P NewOpc) = NewOpc \<longrightarrow> getOpcode MI' = NewOpc) \<and>
           AsmPrinterFlags MI' = AsmPrinterFlags MI OR AC_EVEX_2_VEX X \<and>
           implicit_operands MI' = implicit_operands MI \<and>
           length (explicit_operands MI') = length (explicit_operands MI) \<and>
           (\<forall>i. i \<noteq> length (explicit_operands MI) - 1 \<longrightarrow>
                explicit_operands MI' ! i = explicit_operands MI ! i) \<and>
           (\<forall>i. (\<forall>v. explicit_operands MI ! i \<noteq> MO_Immediate v) \<longrightarrow>
                explicit_operands MI' ! i = explicit_operands MI ! i) \<and>
           (explicit_operands MI' \<noteq> explicit_operands MI \<longrightarrow>
              getOpcode MI \<in> VALIGN_labels X \<union> VSHUF_labels X \<and>
              (\<exists>v v'. last_explicit_is_Imm MI v \<and> last_explicit_is_Imm MI' v'))"
  proof cases
    case same
    with m show ?thesis by (simp add: commit_frame getOpcode_def)
  next
    case imm
    from imm(2) have ne: "explicit_operands MI \<noteq> []" by (simp add: last_explicit_is_Imm_def)
    have l': "last_explicit_is_Imm MI' v'"
      using last_explicit_is_Imm_setLastExplicitImm [OF ne, of v'] m imm(3)
      by (simp add: last_explicit_is_Imm_def commit_frame)
    have n: "explicit_operands MI' ! i = explicit_operands MI ! i"
      if "i \<noteq> length (explicit_operands MI) - 1" for i
      using that m imm(3) by (simp add: commit_frame setLastExplicitImm_frame)
    have k: "explicit_operands MI' ! i = explicit_operands MI ! i"
      if "\<forall>v. explicit_operands MI ! i \<noteq> MO_Immediate v" for i
    proof (cases "i = length (explicit_operands MI) - 1")
      case True
      with that last_explicit_is_Imm_nth [OF imm(2)] show ?thesis by simp
    next
      case False
      then show ?thesis by (rule n)
    qed
    from m imm(3) have "MCID MI' = TII P NewOpc"
      "AsmPrinterFlags MI' = AsmPrinterFlags MI OR AC_EVEX_2_VEX X"
      "implicit_operands MI' = implicit_operands MI"
      "length (explicit_operands MI') = length (explicit_operands MI)"
      by (simp_all add: commit_frame setLastExplicitImm_frame)
    with imm(1,2) l' n k show ?thesis by (auto simp: getOpcode_def)
  qed
  with r show ?thesis by blast
qed

text \<open>
  \<open>VALIGNQZ128rri\<close> with the immediate 3 becomes \<open>VPALIGNRrri\<close> with the immediate 24.
\<close>

theorem rewrite_frame_witness:
  "CompressEvexToVexImpl X86_example P_example MI_VALIGNQ_example =
     Inr (True, MI_VPALIGNR_example) \<and>
   getOpcode MI_VPALIGNR_example = 2001 \<and>
   AsmPrinterFlags MI_VPALIGNR_example =
     AsmPrinterFlags MI_VALIGNQ_example OR AC_EVEX_2_VEX X86_example \<and>
   implicit_operands MI_VPALIGNR_example = implicit_operands MI_VALIGNQ_example \<and>
   length (explicit_operands MI_VPALIGNR_example) =
     length (explicit_operands MI_VALIGNQ_example) \<and>
   explicit_operands MI_VPALIGNR_example ! 0 = explicit_operands MI_VALIGNQ_example ! 0 \<and>
   explicit_operands MI_VPALIGNR_example ! 1 = explicit_operands MI_VALIGNQ_example ! 1 \<and>
   explicit_operands MI_VPALIGNR_example ! 2 = explicit_operands MI_VALIGNQ_example ! 2 \<and>
   last_explicit_is_Imm MI_VALIGNQ_example 3 \<and>
   last_explicit_is_Imm MI_VPALIGNR_example 24"
proof -
  have r: "CompressEvexToVexImpl X86_example P_example MI_VALIGNQ_example =
             Inr (True, MI_VPALIGNR_example)"
    by (simp add: example_defs impl_defs)
  from rewrite_frame [OF r] obtain NewOpc where
    n: "reaches_register_check X86_example P_example MI_VALIGNQ_example NewOpc"
    and o: "Opcode (TII P_example NewOpc) = NewOpc \<longrightarrow> getOpcode MI_VPALIGNR_example = NewOpc"
    and f: "AsmPrinterFlags MI_VPALIGNR_example =
              AsmPrinterFlags MI_VALIGNQ_example OR AC_EVEX_2_VEX X86_example"
      "implicit_operands MI_VPALIGNR_example = implicit_operands MI_VALIGNQ_example"
      "length (explicit_operands MI_VPALIGNR_example) =
         length (explicit_operands MI_VALIGNQ_example)"
    and i: "\<forall>i. i \<noteq> length (explicit_operands MI_VALIGNQ_example) - 1 \<longrightarrow>
              explicit_operands MI_VPALIGNR_example ! i =
              explicit_operands MI_VALIGNQ_example ! i"
    by blast
  have "reaches_register_check X86_example P_example MI_VALIGNQ_example 2001"
    by (simp add: example_defs)
  with n have "NewOpc = 2001" by (rule reaches_register_check_unique)
  moreover have "Opcode (TII P_example 2001) = 2001" by (simp add: example_defs)
  ultimately have g: "getOpcode MI_VPALIGNR_example = 2001" using o by simp
  have len: "length (explicit_operands MI_VALIGNQ_example) - 1 = 3" by (simp add: example_defs)
  from i len have
    "explicit_operands MI_VPALIGNR_example ! 0 = explicit_operands MI_VALIGNQ_example ! 0"
    "explicit_operands MI_VPALIGNR_example ! 1 = explicit_operands MI_VALIGNQ_example ! 1"
    "explicit_operands MI_VPALIGNR_example ! 2 = explicit_operands MI_VALIGNQ_example ! 2"
    by simp_all
  moreover have "last_explicit_is_Imm MI_VALIGNQ_example 3"
    "last_explicit_is_Imm MI_VPALIGNR_example 24"
    by (simp_all add: example_defs)
  ultimately show ?thesis using r g f by simp
qed

text \<open>
  Claim C9 (amended). Let the instruction reach the register check. If it is no ZMM
  instruction of the tables, none of its explicit register operands names a ZMM
  register, \<open>usesExtendedRegister\<close> returns whether one names a high XMM or YMM register,
  and the assertion does not fail. If a ZMM register comes before every high XMM or YMM
  register, the assertion fails: the function ends in the fault
  \<open>ZMM_in_EVEX2VEX_tables\<close>, which is not the result of an ineligible instruction. If a
  ZMM register is named but a high XMM or YMM register comes first, the loop returns
  true at that register, the assertion is not evaluated on the ZMM register, and the
  instruction is an ordinary ineligible one.
\<close>

theorem ZMM_assertion:
  assumes "reaches_register_check X P MI NewOpc"
  shows "(no_ZMM_in_tables X P MI \<longrightarrow>
            \<not> names_ZMM_register X MI \<and>
            usesExtendedRegister X MI = Inr (names_hi_register X MI) \<and>
            CompressEvexToVexImpl X P MI \<noteq> Inl ZMM_in_EVEX2VEX_tables) \<and>
         (ZMM_register_first X MI \<longrightarrow>
            usesExtendedRegister X MI = Inl ZMM_in_EVEX2VEX_tables \<and>
            CompressEvexToVexImpl X P MI = Inl ZMM_in_EVEX2VEX_tables \<and>
            CompressEvexToVexImpl X P MI \<noteq> Inr (False, MI)) \<and>
         (names_ZMM_register X MI \<and> \<not> ZMM_register_first X MI \<longrightarrow>
            usesExtendedRegister X MI = Inr True \<and>
            CompressEvexToVexImpl X P MI = Inr (False, MI))"
proof (intro conjI impI)
  assume inv: "no_ZMM_in_tables X P MI"
  from assms have "EvexToVex128Table P (getOpcode MI) \<noteq> None \<or>
                   EvexToVex256Table P (getOpcode MI) \<noteq> None"
    by (auto simp: reaches_register_check_def table_entry_def split: option.splits if_splits)
  with inv show z: "\<not> names_ZMM_register X MI" unfolding no_ZMM_in_tables_def by blast
  then show "usesExtendedRegister X MI = Inr (names_hi_register X MI)"
    by (rule usesExtendedRegister_no_ZMM)
  from z have "\<not> ZMM_register_first X MI" using ZMM_register_first_names by blast
  then show "CompressEvexToVexImpl X P MI \<noteq> Inl ZMM_in_EVEX2VEX_tables"
    by (simp add: CompressEvexToVexImpl_ZMM_fault)
next
  assume f: "ZMM_register_first X MI"
  then show "usesExtendedRegister X MI = Inl ZMM_in_EVEX2VEX_tables"
    by (simp add: usesExtendedRegister_ZMM_first)
  from f assms show u: "CompressEvexToVexImpl X P MI = Inl ZMM_in_EVEX2VEX_tables"
    using CompressEvexToVexImpl_ZMM_fault by blast
  then show "CompressEvexToVexImpl X P MI \<noteq> Inr (False, MI)" by simp
next
  assume a: "names_ZMM_register X MI \<and> \<not> ZMM_register_first X MI"
  show t: "usesExtendedRegister X MI = Inr True"
  proof (cases "usesExtendedRegister X MI")
    case (Inl f)
    with a show ?thesis using usesExtendedRegister_ZMM_first [of X MI f] by simp
  next
    case (Inr u)
    have "\<not> names_hi_register X MI \<Longrightarrow> False"
      using a Inr usesExtendedRegister_ZMM_only [of X MI] by simp
    then have "names_hi_register X MI" by blast
    with Inr usesExtendedRegister_hi [of X MI] show ?thesis by auto
  qed
  then show "CompressEvexToVexImpl X P MI = Inr (False, MI)"
    by (simp add: CompressEvexToVexImpl_reaching [OF assms])
qed

text \<open>
  XMM20 alone, ZMM2 ahead of XMM20, and XMM20 ahead of ZMM2.
\<close>

theorem ZMM_assertion_witness:
  "reaches_register_check X86_example P_example MI_hi_example 2021 \<and>
   no_ZMM_in_tables X86_example P_example MI_hi_example \<and>
   usesExtendedRegister X86_example MI_hi_example = Inr True \<and>
   CompressEvexToVexImpl X86_example P_example MI_hi_example \<noteq> Inl ZMM_in_EVEX2VEX_tables \<and>
   reaches_register_check X86_example P_example MI_ZMM_hi_example 2021 \<and>
   ZMM_register_first X86_example MI_ZMM_hi_example \<and>
   CompressEvexToVexImpl X86_example P_example MI_ZMM_hi_example = Inl ZMM_in_EVEX2VEX_tables \<and>
   reaches_register_check X86_example P_example MI_hi_ZMM_example 2021 \<and>
   names_ZMM_register X86_example MI_hi_ZMM_example \<and>
   \<not> ZMM_register_first X86_example MI_hi_ZMM_example \<and>
   CompressEvexToVexImpl X86_example P_example MI_hi_ZMM_example = Inr (False, MI_hi_ZMM_example)"
proof -
  have r1: "reaches_register_check X86_example P_example MI_hi_example 2021"
    by (simp add: example_defs)
  have i1: "no_ZMM_in_tables X86_example P_example MI_hi_example"
    by (simp add: example_defs no_ZMM_in_tables_def)
  have h1: "names_hi_register X86_example MI_hi_example" by (simp add: example_defs)
  have r2: "reaches_register_check X86_example P_example MI_ZMM_hi_example 2021"
    by (simp add: example_defs)
  have f2: "ZMM_register_first X86_example MI_ZMM_hi_example" by (simp add: example_defs)
  have r3: "reaches_register_check X86_example P_example MI_hi_ZMM_example 2021"
    by (simp add: example_defs)
  have z3: "names_ZMM_register X86_example MI_hi_ZMM_example" by (simp add: example_defs)
  have f3: "\<not> ZMM_register_first X86_example MI_hi_ZMM_example" by (simp add: example_defs)
  from ZMM_assertion [OF r1] i1 h1
  have 1: "usesExtendedRegister X86_example MI_hi_example = Inr True \<and>
           CompressEvexToVexImpl X86_example P_example MI_hi_example \<noteq>
             Inl ZMM_in_EVEX2VEX_tables"
    by simp
  from ZMM_assertion [OF r2] f2
  have 2: "CompressEvexToVexImpl X86_example P_example MI_ZMM_hi_example =
             Inl ZMM_in_EVEX2VEX_tables"
    by blast
  from ZMM_assertion [OF r3] z3 f3
  have 3: "CompressEvexToVexImpl X86_example P_example MI_hi_ZMM_example =
             Inr (False, MI_hi_ZMM_example)"
    by blast
  from r1 i1 r2 f2 r3 z3 f3 1 2 3 show ?thesis by simp
qed

text \<open>
  A violation that is no fault: the instruction has an entry in the 128 table and names
  ZMM2, but behind XMM20, and the function returns false as for any ineligible
  instruction.
\<close>

theorem ZMM_behind_high_register_counterexample:
  "reaches_register_check X86_example P_example MI_hi_ZMM_example 2021 \<and>
   names_ZMM_register X86_example MI_hi_ZMM_example \<and>
   CompressEvexToVexImpl X86_example P_example MI_hi_ZMM_example = Inr (False, MI_hi_ZMM_example)"
  by (simp add: example_defs CompressEvexToVexImpl_def find_NewOpc_def usesExtendedRegister_def
        Let_def)

text \<open>
  Claim C10. If the table of the width class pairs the opcode with the short form 0,
  \<open>CompressEvexToVexImpl\<close> returns false and leaves the instruction unchanged, as it
  does when the opcode is removed from both tables. Whenever it returns true, the table
  of the width class has an entry for the opcode, and the entry is not 0.
\<close>

theorem zero_short_form_is_a_miss:
  "(table_entry X P MI = Some 0 \<longrightarrow>
      CompressEvexToVexImpl X P MI = Inr (False, MI) \<and>
      CompressEvexToVexImpl X P MI =
        CompressEvexToVexImpl X
          (P\<lparr>EvexToVex128Table := (EvexToVex128Table P)(getOpcode MI := None),
             EvexToVex256Table := (EvexToVex256Table P)(getOpcode MI := None)\<rparr>) MI) \<and>
   (\<forall>MI'. CompressEvexToVexImpl X P MI = Inr (True, MI') \<longrightarrow>
      (\<exists>v. table_entry X P MI = Some v \<and> v \<noteq> 0))"
proof (intro conjI impI allI)
  assume z: "table_entry X P MI = Some 0"
  then have "\<forall>NewOpc. \<not> reaches_register_check X P MI NewOpc"
    by (simp add: reaches_register_check_def)
  then show f: "CompressEvexToVexImpl X P MI = Inr (False, MI)"
    by (rule CompressEvexToVexImpl_not_reaching)
  let ?Q = "P\<lparr>EvexToVex128Table := (EvexToVex128Table P)(getOpcode MI := None),
              EvexToVex256Table := (EvexToVex256Table P)(getOpcode MI := None)\<rparr>"
  have "table_entry X ?Q MI = None" by (simp add: table_entry_def)
  then have "\<forall>NewOpc. \<not> reaches_register_check X ?Q MI NewOpc"
    by (simp add: reaches_register_check_def)
  then have "CompressEvexToVexImpl X ?Q MI = Inr (False, MI)"
    by (rule CompressEvexToVexImpl_not_reaching)
  with f show "CompressEvexToVexImpl X P MI = CompressEvexToVexImpl X ?Q MI" by simp
next
  fix MI'
  assume "CompressEvexToVexImpl X P MI = Inr (True, MI')"
  then obtain NewOpc where "reaches_register_check X P MI NewOpc"
    using CompressEvexToVexImpl_True_reaches by blast
  then show "\<exists>v. table_entry X P MI = Some v \<and> v \<noteq> 0"
    by (auto simp: reaches_register_check_def split: option.splits)
qed

text \<open>
  \<open>VALIGNQZ128rri\<close> under a table that pairs it with 0, and under the example table,
  where it is rewritten.
\<close>

theorem zero_short_form_is_a_miss_witness:
  "table_entry X86_example P_zero_example MI_VALIGNQ_example = Some 0 \<and>
   CompressEvexToVexImpl X86_example P_zero_example MI_VALIGNQ_example =
     Inr (False, MI_VALIGNQ_example) \<and>
   CompressEvexToVexImpl X86_example P_example MI_VALIGNQ_example =
     Inr (True, commit X86_example P_example
                  (MI_example 1003
                     [MO_Register 144, MO_Register 145, MO_Register 146, MO_Immediate 24])
                  2001) \<and>
   table_entry X86_example P_example MI_VALIGNQ_example = Some 2001"
proof -
  have z: "table_entry X86_example P_zero_example MI_VALIGNQ_example = Some 0"
    by (simp add: example_defs)
  have r: "CompressEvexToVexImpl X86_example P_example MI_VALIGNQ_example =
     Inr (True, commit X86_example P_example
                  (MI_example 1003
                     [MO_Register 144, MO_Register 145, MO_Register 146, MO_Immediate 24])
                  2001)"
    by code_simp
  have "\<exists>v. table_entry X86_example P_example MI_VALIGNQ_example = Some v \<and> v \<noteq> 0"
    using r zero_short_form_is_a_miss [of X86_example P_example MI_VALIGNQ_example] by blast
  moreover have "table_entry X86_example P_example MI_VALIGNQ_example = Some 2001"
    by (simp add: example_defs)
  moreover have "CompressEvexToVexImpl X86_example P_zero_example MI_VALIGNQ_example =
     Inr (False, MI_VALIGNQ_example)"
    using z zero_short_form_is_a_miss [of X86_example P_zero_example MI_VALIGNQ_example]
    by blast
  ultimately show ?thesis using z r by simp
qed

end
